theory Spec2Isabelle
  imports Complex_Main "HOL-Library.Sublist"
begin

section \<open>Errors\<close>

text \<open>
  Every exception that the modelled code paths can raise is a value of this type.
  A computation that can raise returns \<open>error + 'a\<close>, with \<open>Inl\<close> for the exception.
\<close>

datatype error =
    KernelSizeError          \<comment> \<open>convolution kernel larger than the input\<close>
  | ChannelMismatch          \<comment> \<open>input channels differ from the layer's channels\<close>
  | InputRankError           \<comment> \<open>tensor of the wrong number of dimensions\<close>
  | BatchNormSizeError       \<comment> \<open>one value per channel in training mode\<close>
  | PoolOutputSizeError      \<comment> \<open>pooling would give an empty output\<close>
  | ViewError                \<comment> \<open>\<open>view\<close> cannot infer the \<open>-1\<close> dimension\<close>
  | ShapeMismatch nat nat    \<comment> \<open>linear layer: features given, features expected\<close>
  | ArgmaxEmpty              \<comment> \<open>argmax over a dimension of size 0\<close>
  | TargetOutOfBounds        \<comment> \<open>loss: a label that is not the index of a class\<close>
  | InconsistentLength       \<comment> \<open>sklearn: label lists of different lengths\<close>
  | EmptyMatrixError         \<comment> \<open>numpy: maximum of an array without elements\<close>
  | BatchSizeError           \<comment> \<open>DataLoader: batch size not positive\<close>
  | FileExistsError
  | FileNotFoundError
  | NotADirectoryError
  | IsADirectoryError
  | UnpicklingError          \<comment> \<open>the file is not a saved checkpoint\<close>
  | StateDictMismatch        \<comment> \<open>\<open>load_state_dict\<close>: parameter shapes differ\<close>
  | OSError
  | FatalError               \<comment> \<open>any failure reported by a collaborator\<close>

definition and_then :: "error + 'a \<Rightarrow> ('a \<Rightarrow> error + 'b) \<Rightarrow> error + 'b" where
  "and_then m f = (case m of Inl e \<Rightarrow> Inl e | Inr x \<Rightarrow> f x)"

section \<open>The network module (classification_models.py), at the level of tensor shapes\<close>

text \<open>
  A tensor is represented by its shape. Each layer of the framework either maps a shape
  to a shape or raises. The flag \<open>tr\<close> is the module's training mode
  (\<open>model.train()\<close> against \<open>model.eval()\<close>).
\<close>

type_synonym shape = "nat list"

datatype layer =
    Conv2d nat nat nat nat   \<comment> \<open>in_channels, out_channels, kernel_size, padding\<close>
  | BatchNorm2d nat          \<comment> \<open>num_features\<close>
  | LeakyReLU
  | MaxPool2d nat            \<comment> \<open>kernel_size (the stride defaults to it)\<close>
  | Dropout
  | Linear nat nat           \<comment> \<open>in_features, out_features\<close>

definition conv2d_shape :: "nat \<Rightarrow> nat \<Rightarrow> nat \<Rightarrow> nat \<Rightarrow> shape \<Rightarrow> nat \<Rightarrow> nat \<Rightarrow> nat \<Rightarrow> error + shape" where
  "conv2d_shape cin cout k p lead c h w =
     (if c \<noteq> cin then Inl ChannelMismatch
      else if h + 2 * p < k \<or> w + 2 * p < k then Inl KernelSizeError
      else Inr (lead @ [cout, h + 2 * p - k + 1, w + 2 * p - k + 1]))"

definition maxpool2d_shape :: "nat \<Rightarrow> shape \<Rightarrow> nat \<Rightarrow> nat \<Rightarrow> error + shape" where
  "maxpool2d_shape k lead h w =
     (if k = 0 then Inl PoolOutputSizeError
      else if h < k \<or> w < k then Inl PoolOutputSizeError
      else Inr (lead @ [(h - k) div k + 1, (w - k) div k + 1]))"

fun apply_layer :: "bool \<Rightarrow> layer \<Rightarrow> shape \<Rightarrow> error + shape" where
  "apply_layer tr (Conv2d cin cout k p) x =
     (case x of
        [n, c, h, w] \<Rightarrow> conv2d_shape cin cout k p [n] c h w
      | [c, h, w] \<Rightarrow> conv2d_shape cin cout k p [] c h w
      | _ \<Rightarrow> Inl InputRankError)"
| "apply_layer tr (BatchNorm2d nf) x =
     (case x of
        [n, c, h, w] \<Rightarrow>
          (if tr \<and> n * h * w = 1 then Inl BatchNormSizeError
           else if c \<noteq> nf then Inl ChannelMismatch
           else Inr x)
      | _ \<Rightarrow> Inl InputRankError)"
| "apply_layer tr LeakyReLU x = Inr x"
| "apply_layer tr (MaxPool2d k) x =
     (case x of
        [n, c, h, w] \<Rightarrow> maxpool2d_shape k [n, c] h w
      | [c, h, w] \<Rightarrow> maxpool2d_shape k [c] h w
      | _ \<Rightarrow> Inl InputRankError)"
| "apply_layer tr Dropout x = Inr x"
| "apply_layer tr (Linear fin fout) x =
     (if x = [] then Inl InputRankError
      else if last x \<noteq> fin then Inl (ShapeMismatch (last x) fin)
      else Inr (butlast x @ [fout]))"

text \<open>
  \<open>nn.Sequential\<close>: the layers in order, stopping at the first that raises. The
  network below is written once, over any tensors \<open>'a\<close>: \<open>call\<close> is what the framework
  does when a layer is called on a tensor. On shapes it is \<open>apply_layer tr\<close>.
\<close>

fun Sequential :: "(layer \<Rightarrow> 'a \<Rightarrow> error + 'a) \<Rightarrow> layer list \<Rightarrow> 'a \<Rightarrow> error + 'a" where
  "Sequential call [] x = Inr x"
| "Sequential call (l # ls) x = and_then (call l x) (Sequential call ls)"

definition make_block :: "nat \<Rightarrow> nat \<Rightarrow> layer list" where
  "make_block in_channels out_channels =
     [Conv2d in_channels out_channels 3 0,
      BatchNorm2d out_channels,
      LeakyReLU,
      Conv2d out_channels out_channels 3 0,
      BatchNorm2d out_channels,
      LeakyReLU,
      MaxPool2d 2]"

record CNN =
  conv1 :: "layer list"
  conv2 :: "layer list"
  conv3 :: "layer list"
  conv4 :: "layer list"
  fc1 :: "layer list"
  fc2 :: "layer list"
  fc3 :: "layer list"

definition CNN_init :: "nat \<Rightarrow> CNN" where
  "CNN_init num_classes =
     \<lparr> conv1 = make_block 3 16,
       conv2 = make_block 16 32,
       conv3 = make_block 32 64,
       conv4 = make_block 64 64,
       fc1 = [Dropout, Linear 5184 1024, LeakyReLU],
       fc2 = [Dropout, Linear 1024 512, LeakyReLU],
       fc3 = [Dropout, Linear 512 num_classes] \<rparr>"

text \<open>
  \<open>x.view(x.shape[0], -1)\<close> on shapes: the first dimension is kept and the others are
  merged. The framework refuses to infer the merged dimension when the kept one is 0.
  In \<open>forward\<close> the parameter \<open>view\<close> stands for this call; on shapes it is
  \<open>view_flatten\<close>.
\<close>

definition view_flatten :: "shape \<Rightarrow> error + shape" where
  "view_flatten x =
     (case x of
        [] \<Rightarrow> Inl InputRankError
      | n # rest \<Rightarrow> if n = 0 then Inl ViewError else Inr [n, prod_list rest])"

definition forward ::
  "(layer \<Rightarrow> 'a \<Rightarrow> error + 'a) \<Rightarrow> ('a \<Rightarrow> error + 'a) \<Rightarrow> CNN \<Rightarrow> 'a \<Rightarrow> error + 'a" where
  "forward call view self x =
     and_then (Sequential call (conv1 self) x) (\<lambda>x.
     and_then (Sequential call (conv2 self) x) (\<lambda>x.
     and_then (Sequential call (conv3 self) x) (\<lambda>x.
     and_then (Sequential call (conv4 self) x) (\<lambda>x.
     and_then (view x) (\<lambda>x.
     and_then (Sequential call (fc1 self) x) (\<lambda>x.
     and_then (Sequential call (fc2 self) x) (\<lambda>x.
     Sequential call (fc3 self) x)))))))"

text \<open>The side of a square feature map after one block: two unpadded 3x3
  convolutions take 4 off, the 2x2 pooling halves, rounding down.\<close>

definition block_side :: "nat \<Rightarrow> nat" where
  "block_side s = (s - 4) div 2"

definition final_side :: "nat \<Rightarrow> nat" where
  "final_side s = block_side (block_side (block_side (block_side s)))"


section \<open>Validation metrics\<close>

text \<open>
  A Python float that holds an accuracy: an exact quotient, or NaN. The order
  comparisons of Python are false as soon as one side is NaN. The rounding of the
  quotient to a double is not modelled.
\<close>

datatype pyfloat = NaN | Num rat

definition float_gt :: "pyfloat \<Rightarrow> pyfloat \<Rightarrow> bool" where
  "float_gt x y = (case (x, y) of (Num a, Num b) \<Rightarrow> b < a | _ \<Rightarrow> False)"

text \<open>
  \<open>torch.argmax\<close> over the class dimension of one logit vector: the index of the
  first maximal value. It raises on a dimension of size 0.
\<close>

fun argmax_from :: "nat \<Rightarrow> 'v::linorder \<Rightarrow> nat \<Rightarrow> 'v list \<Rightarrow> nat" where
  "argmax_from best bv i [] = best"
| "argmax_from best bv i (x # xs) =
     (if bv < x then argmax_from i x (Suc i) xs else argmax_from best bv (Suc i) xs)"

definition argmax :: "'v::linorder list \<Rightarrow> error + nat" where
  "argmax logits =
     (case logits of [] \<Rightarrow> Inl ArgmaxEmpty | x # xs \<Rightarrow> Inr (argmax_from 0 x 1 xs))"

text \<open>
  \<open>nn.CrossEntropyLoss\<close> on the logits and the labels of one batch. Its value is a float
  of the framework and is not modelled; it raises when a label is not the index of a
  class.
\<close>

definition criterion :: "'v list list \<Rightarrow> nat list \<Rightarrow> error + unit" where
  "criterion predictions labels =
     (if list_all (\<lambda>(logits, l). l < length logits) (zip predictions labels)
      then Inr () else Inl TargetOutOfBounds)"

text \<open>Applying a fallible function to every element, stopping at the first failure.\<close>

fun map_result :: "('a \<Rightarrow> error + 'b) \<Rightarrow> 'a list \<Rightarrow> error + 'b list" where
  "map_result f [] = Inr []"
| "map_result f (x # xs) =
     and_then (f x) (\<lambda>y. and_then (map_result f xs) (\<lambda>ys. Inr (y # ys)))"

text \<open>
  The validation \<open>DataLoader\<close> (shuffle off, drop_last off): the dataset cut into
  consecutive batches of \<open>batch_size\<close> samples, the last one possibly shorter.
\<close>

function chunks :: "nat \<Rightarrow> 'a list \<Rightarrow> 'a list list" where
  "chunks n xs = (if n = 0 \<or> xs = [] then [] else take n xs # chunks n (drop n xs))"
  by pat_completeness auto
termination
  by (relation "measure (\<lambda>(n, xs). length xs)") auto

declare chunks.simps [simp del]

definition DataLoader :: "int \<Rightarrow> 'a list \<Rightarrow> error + 'a list list" where
  "DataLoader batch_size dataset =
     (if batch_size \<le> 0 then Inl BatchSizeError
      else Inr (chunks (nat batch_size) dataset))"

text \<open>
  The validation loop of \<open>train\<close>. A batch is the list of its (image, label) samples;
  \<open>network\<close> is the model in evaluation mode on one image, returning its logits. The
  losses that the loop also collects are not modelled.
\<close>

fun validation_loop ::
  "('img \<Rightarrow> error + 'v::linorder list) \<Rightarrow> ('img \<times> nat) list list \<Rightarrow>
   nat list \<times> nat list \<Rightarrow> error + (nat list \<times> nat list)" where
  "validation_loop network [] acc = Inr acc"
| "validation_loop network (batch # rest) acc =
     (let images = map fst batch;
          labels = map snd batch;
          all_gts = fst acc;
          all_predictions = snd acc
      in and_then (map_result network images) (\<lambda>predictions.
         and_then (map_result argmax predictions) (\<lambda>max_idx.
         and_then (criterion predictions labels) (\<lambda>loss.
         validation_loop network rest (all_gts @ labels, all_predictions @ max_idx)))))"

text \<open>
  \<open>sklearn.metrics.accuracy_score\<close> and \<open>confusion_matrix\<close>, as the library documents
  them: the fraction of positions where both lists agree (NaN, the mean of nothing, when
  the lists are empty), and the matrix whose rows and columns are the sorted distinct
  labels that occur in either list. Both raise on lists of different lengths.
\<close>

definition accuracy_score :: "nat list \<Rightarrow> nat list \<Rightarrow> error + pyfloat" where
  "accuracy_score y_true y_pred =
     (if length y_true \<noteq> length y_pred then Inl InconsistentLength
      else if y_true = [] then Inr NaN
      else Inr (Num (of_nat (length (filter (\<lambda>(t, p). t = p) (zip y_true y_pred)))
                     / of_nat (length y_true))))"

definition unique_labels :: "nat list \<Rightarrow> nat list \<Rightarrow> nat list" where
  "unique_labels y_true y_pred = sort (remdups (y_true @ y_pred))"

definition confusion_matrix :: "nat list \<Rightarrow> nat list \<Rightarrow> error + nat list list" where
  "confusion_matrix y_true y_pred =
     (if length y_true \<noteq> length y_pred then Inl InconsistentLength
      else (let labels = unique_labels y_true y_pred
            in Inr (map (\<lambda>t. map (\<lambda>p. count_list (zip y_true y_pred) (t, p)) labels) labels)))"

definition trace :: "nat list list \<Rightarrow> nat" where
  "trace cm = sum_list (map (\<lambda>i. cm ! i ! i) [0..<length cm])"

definition correct_count :: "nat list \<Rightarrow> nat list \<Rightarrow> nat" where
  "correct_count y_true y_pred = card {i. i < length y_true \<and> y_pred ! i = y_true ! i}"

text \<open>
  The metrics sink. Of what the script logs, the validation accuracy and the figure of
  the confusion matrix are kept; the loss scalars are floats of the framework.
  \<open>plot_confusion_matrix\<close> takes the maximum of the matrix, which raises when the matrix
  has no entry, and then adds the figure.
\<close>

datatype event =
    Scalar string pyfloat int                     \<comment> \<open>tag, value, step\<close>
  | Figure string "nat list list" "nat list" int  \<comment> \<open>tag, matrix, class names, step\<close>

definition plot_confusion_matrix ::
  "event list \<Rightarrow> nat list list \<Rightarrow> nat list \<Rightarrow> int \<Rightarrow> error + event list" where
  "plot_confusion_matrix writer cm class_names epoch =
     (if cm = [] then Inl EmptyMatrixError
      else Inr (writer @ [Figure ''confusion_matrix'' cm class_names epoch]))"

text \<open>The validation accuracies that a log holds, in the order they were written.\<close>

fun logged_accuracies :: "event list \<Rightarrow> pyfloat list" where
  "logged_accuracies [] = []"
| "logged_accuracies (Scalar tag v step # es) =
     (if tag = ''Val/Accuracy'' then v # logged_accuracies es else logged_accuracies es)"
| "logged_accuracies (Figure tag cm names step # es) = logged_accuracies es"

section \<open>The training script (classification_train.py)\<close>

subsection \<open>Files\<close>

text \<open>
  A path is the list of its components below the working directory, so that
  \<open>os.path.join\<close> appends a component and the parent is \<open>butlast\<close>. The empty list is the
  working directory itself, which is a directory and can neither be created nor removed.
  A file either holds a record written by \<open>torch.save\<close> or something else.
\<close>

type_synonym path = "string list"

record 'w model_state =
  num_classes :: nat
  weights :: 'w

record 'o optimizer_state =
  group_lr :: rat       \<comment> \<open>the learning rate of the parameter group\<close>
  moments :: 'o

record ('w, 'o) checkpoint =
  ck_model :: "'w model_state"
  ck_optimizer :: "'o optimizer_state"
  ck_epoch :: int
  ck_best_acc :: pyfloat
  ck_batch_size :: int

datatype ('w, 'o) node = Dir | CheckpointFile "('w, 'o) checkpoint" | OtherFile

type_synonym ('w, 'o) filesystem = "path \<Rightarrow> ('w, 'o) node option"

definition isdir :: "('w, 'o) filesystem \<Rightarrow> path \<Rightarrow> bool" where
  "isdir fs p = (p = [] \<or> fs p = Some Dir)"

definition isfile :: "('w, 'o) filesystem \<Rightarrow> path \<Rightarrow> bool" where
  "isfile fs p = (p \<noteq> [] \<and> (case fs p of
       Some (CheckpointFile ck) \<Rightarrow> True | Some OtherFile \<Rightarrow> True | _ \<Rightarrow> False))"

definition path_join :: "path \<Rightarrow> string \<Rightarrow> path" where
  "path_join p name = p @ [name]"

text \<open>What creating an entry at \<open>p\<close> requires of the parent of \<open>p\<close>.\<close>

definition parent_error :: "('w, 'o) filesystem \<Rightarrow> path \<Rightarrow> error option" where
  "parent_error fs p =
     (if isdir fs (butlast p) then None
      else if fs (butlast p) = None then Some FileNotFoundError
      else Some NotADirectoryError)"

definition rmtree :: "path \<Rightarrow> ('w, 'o) filesystem \<Rightarrow> error + ('w, 'o) filesystem" where
  "rmtree p fs =
     (if p = [] then Inl OSError
      else Inr (\<lambda>q. if prefix p q then None else fs q))"

definition mkdir :: "path \<Rightarrow> ('w, 'o) filesystem \<Rightarrow> error + ('w, 'o) filesystem" where
  "mkdir p fs =
     (if p = [] \<or> fs p \<noteq> None then Inl FileExistsError
      else case parent_error fs p of
             Some e \<Rightarrow> Inl e
           | None \<Rightarrow> Inr (fs(p \<mapsto> Dir)))"

definition torch_save ::
  "('w, 'o) checkpoint \<Rightarrow> path \<Rightarrow> ('w, 'o) filesystem \<Rightarrow> error + ('w, 'o) filesystem" where
  "torch_save obj p fs =
     (if isdir fs p then Inl IsADirectoryError
      else case parent_error fs p of
             Some e \<Rightarrow> Inl e
           | None \<Rightarrow> Inr (fs(p \<mapsto> CheckpointFile obj)))"

definition torch_load :: "path \<Rightarrow> ('w, 'o) filesystem \<Rightarrow> error + ('w, 'o) checkpoint" where
  "torch_load p fs =
     (case fs p of
        Some (CheckpointFile ck) \<Rightarrow> Inr ck
      | Some OtherFile \<Rightarrow> Inl UnpicklingError
      | Some Dir \<Rightarrow> Inl IsADirectoryError
      | None \<Rightarrow> Inl FileNotFoundError)"

subsection \<open>Arguments and collaborators\<close>

record args =
  data_path :: path
  batch_size :: int
  epochs :: int
  lr :: rat
  image_size :: int
  checkpoint_path :: "path option"
  tensorboard_path :: path
  trained_path :: path

definition get_args_defaults :: args where
  "get_args_defaults =
     \<lparr> data_path = [''data'', ''animals''],
       batch_size = 16,
       epochs = 100,
       lr = 1 / 100,
       image_size = 224,
       checkpoint_path = None,
       tensorboard_path = [''tensorboard''],
       trained_path = [''trained_models''] \<rparr>"

text \<open>
  What the script takes from the dataset adapter and from the tensor framework:
  the number of categories of the training set, the validation samples, the initial
  parameters, the effect of one training pass (\<open>fit\<close>, given the epoch, the weights,
  the optimizer's moment estimates and the learning rate) and the network in evaluation
  mode on one image (\<open>net\<close>). Both may raise.
\<close>

record ('w, 'o, 'img, 'v) env =
  categories :: nat
  valid_set :: "('img \<times> nat) list"
  init_weights :: 'w
  init_moments :: 'o
  fit :: "int \<Rightarrow> 'w \<Rightarrow> 'o \<Rightarrow> rat \<Rightarrow> error + ('w \<times> 'o)"
  net :: "'w \<Rightarrow> 'img \<Rightarrow> error + 'v list"

subsection \<open>Learning-rate schedule\<close>

definition milestones :: "int list" where
  "milestones = [30, 60, 90]"

definition gamma :: rat where
  "gamma = 1 / 10"

text \<open>
  \<open>MultiStepLR.step\<close>: the scheduler's counter advances, and when it is a milestone the
  current learning rate of the optimizer is multiplied by \<open>gamma\<close> once per occurrence
  of that milestone. Constructing the scheduler runs one step from the counter \<open>-1\<close>.
  The learning rate is an exact rational.
\<close>

definition MultiStepLR_step :: "int \<Rightarrow> 'o optimizer_state \<Rightarrow> int \<times> 'o optimizer_state" where
  "MultiStepLR_step counter opt =
     (let e = counter + 1
      in (e, if e \<notin> set milestones then opt
             else opt \<lparr> group_lr := group_lr opt * gamma ^ count_list milestones e \<rparr>))"

definition MultiStepLR :: "'o optimizer_state \<Rightarrow> int \<times> 'o optimizer_state" where
  "MultiStepLR opt = MultiStepLR_step (- 1) opt"

subsection \<open>State of a run\<close>

record ('w, 'o) run_state =
  model :: "'w model_state"
  optimizer :: "'o optimizer_state"
  last_epoch :: int          \<comment> \<open>the scheduler's own counter\<close>
  best_acc :: pyfloat
  files :: "('w, 'o) filesystem"
  writer :: "event list"

subsection \<open>Start of a run\<close>

text \<open>\<open>load_state_dict\<close> of the model refuses parameters of another shape; the only
  shape that varies between checkpoints of this network is the size of the last layer.\<close>

definition load_state_dict :: "'w model_state \<Rightarrow> 'w model_state \<Rightarrow> error + 'w model_state" where
  "load_state_dict current saved =
     (if num_classes saved \<noteq> num_classes current then Inl StateDictMismatch else Inr saved)"

text \<open>
  Lines 98 to 106 of \<open>train\<close>: the checkpoint is loaded when a path is given and is a
  file; otherwise the run is fresh. An empty or missing path is not a file.
\<close>

definition resume ::
  "args \<Rightarrow> ('w, 'o) filesystem \<Rightarrow> 'w model_state \<Rightarrow> 'o optimizer_state \<Rightarrow>
   error + ('w model_state \<times> 'o optimizer_state \<times> int \<times> pyfloat)" where
  "resume a fs m opt =
     (case checkpoint_path a of
        None \<Rightarrow> Inr (m, opt, 0, Num 0)
      | Some p \<Rightarrow>
          if isfile fs p then
            and_then (torch_load p fs) (\<lambda>checkpoint.
            and_then (load_state_dict m (ck_model checkpoint)) (\<lambda>m'.
            Inr (m', ck_optimizer checkpoint, ck_epoch checkpoint + 1, ck_best_acc checkpoint)))
          else Inr (m, opt, 0, Num 0))"

text \<open>
  Lines 108 to 112: the tensorboard directory is removed when it is a directory and then
  created; the directory for the trained models is created when it is not a directory.
\<close>

definition prepare_tensorboard ::
  "path \<Rightarrow> ('w, 'o) filesystem \<Rightarrow> error + ('w, 'o) filesystem" where
  "prepare_tensorboard p fs =
     and_then (if isdir fs p then rmtree p fs else Inr fs) (mkdir p)"

definition prepare_trained ::
  "path \<Rightarrow> ('w, 'o) filesystem \<Rightarrow> error + ('w, 'o) filesystem" where
  "prepare_trained p fs = (if \<not> isdir fs p then mkdir p fs else Inr fs)"

text \<open>
  \<open>train\<close> up to its loop over the epochs (lines 69 to 114): the loaders, the model, the
  optimizer and the scheduler are built, the checkpoint is loaded, the directories are
  prepared and the writer is opened. The result is the first epoch, the validation loader
  and the state that the loop starts from.
\<close>

definition start_run ::
  "args \<Rightarrow> ('w, 'o, 'img, 'v) env \<Rightarrow> ('w, 'o) filesystem \<Rightarrow>
   error + (int \<times> ('img \<times> nat) list list \<times> ('w, 'o) run_state)" where
  "start_run a env fs =
     and_then (DataLoader (batch_size a) (valid_set env)) (\<lambda>valid_dataloader.
     let m = \<lparr> num_classes = categories env, weights = init_weights env \<rparr>;
         opt = \<lparr> group_lr = lr a, moments = init_moments env \<rparr>;
         scheduler = fst (MultiStepLR opt);
         opt = snd (MultiStepLR opt)
     in and_then (resume a fs m opt) (\<lambda>(m, opt, start_epoch, best).
        and_then (prepare_tensorboard (tensorboard_path a) fs) (\<lambda>fs.
        and_then (prepare_trained (trained_path a) fs) (\<lambda>fs.
        Inr (start_epoch, valid_dataloader,
             \<lparr> model = m, optimizer = opt, last_epoch = scheduler, best_acc = best,
               files = fs, writer = [] \<rparr>)))))"

subsection \<open>One epoch\<close>

text \<open>
  The end of the loop body (lines 163 to 175): the record is built from the state as it
  is, written to last.pt, written to best.pt when the accuracy is greater than the best so
  far, which then becomes the accuracy, and the scheduler steps.
\<close>

definition scheduler_step :: "('w, 'o) run_state \<Rightarrow> ('w, 'o) run_state" where
  "scheduler_step st =
     st \<lparr> last_epoch := fst (MultiStepLR_step (last_epoch st) (optimizer st)),
          optimizer := snd (MultiStepLR_step (last_epoch st) (optimizer st)) \<rparr>"

definition save_checkpoints ::
  "args \<Rightarrow> int \<Rightarrow> pyfloat \<Rightarrow> ('w, 'o) run_state \<Rightarrow> error + ('w, 'o) run_state" where
  "save_checkpoints a epoch acc st =
     (let checkpoint =
            \<lparr> ck_model = model st,
              ck_optimizer = optimizer st,
              ck_epoch = epoch,
              ck_best_acc = best_acc st,
              ck_batch_size = batch_size a \<rparr>
      in and_then (torch_save checkpoint (path_join (trained_path a) ''last.pt'') (files st)) (\<lambda>fs.
         and_then (if float_gt acc (best_acc st)
                   then and_then (torch_save checkpoint (path_join (trained_path a) ''best.pt'') fs)
                          (\<lambda>fs. Inr (fs, acc))
                   else Inr (fs, best_acc st)) (\<lambda>(fs, best).
         Inr (scheduler_step (st \<lparr> files := fs, best_acc := best \<rparr>)))))"

text \<open>
  The loop body (lines 117 to 175): the training pass, the validation loop, the accuracy
  and its scalar, the confusion matrix and its figure, and the checkpoints.
\<close>

definition run_epoch ::
  "args \<Rightarrow> ('w, 'o, 'img, 'v::linorder) env \<Rightarrow> ('img \<times> nat) list list \<Rightarrow> int \<Rightarrow>
   ('w, 'o) run_state \<Rightarrow> error + ('w, 'o) run_state" where
  "run_epoch a env valid_dataloader epoch st =
     and_then (fit env epoch (weights (model st)) (moments (optimizer st))
                 (group_lr (optimizer st))) (\<lambda>(w, mo).
     let st = st \<lparr> model := (model st) \<lparr> weights := w \<rparr>,
                  optimizer := (optimizer st) \<lparr> moments := mo \<rparr> \<rparr>
     in and_then (validation_loop (net env w) valid_dataloader ([], [])) (\<lambda>(all_gts, all_predictions).
        and_then (accuracy_score all_gts all_predictions) (\<lambda>acc.
        let st = st \<lparr> writer := writer st @ [Scalar ''Val/Accuracy'' acc epoch] \<rparr>
        in and_then (confusion_matrix all_gts all_predictions) (\<lambda>conf_matrix.
           and_then (plot_confusion_matrix (writer st) conf_matrix [0..<categories env] epoch) (\<lambda>wr.
           save_checkpoints a epoch acc (st \<lparr> writer := wr \<rparr>))))))"

fun run_epochs ::
  "args \<Rightarrow> ('w, 'o, 'img, 'v::linorder) env \<Rightarrow> ('img \<times> nat) list list \<Rightarrow> int list \<Rightarrow>
   ('w, 'o) run_state \<Rightarrow> error + ('w, 'o) run_state" where
  "run_epochs a env valid_dataloader [] st = Inr st"
| "run_epochs a env valid_dataloader (epoch # rest) st =
     and_then (run_epoch a env valid_dataloader epoch st) (run_epochs a env valid_dataloader rest)"


section \<open>A small run, for the examples\<close>

definition demo_valid_set :: "(nat \<times> nat) list" where
  "demo_valid_set = [(0, 0), (1, 0), (2, 1), (3, 1)]"

definition demo_net :: "nat \<Rightarrow> error + int list" where
  "demo_net img = Inr (if img = 0 then [1, 0] else [0, 1])"

definition demo_env :: "(unit, unit, nat, int) env" where
  "demo_env =
     \<lparr> categories = 2,
       valid_set = demo_valid_set,
       init_weights = (),
       init_moments = (),
       fit = (\<lambda>epoch w mo l. Inr (w, mo)),
       net = (\<lambda>w. demo_net) \<rparr>"

definition demo_state :: "(unit, unit) run_state" where
  "demo_state =
     \<lparr> model = \<lparr> num_classes = 2, weights = () \<rparr>,
       optimizer = \<lparr> group_lr = 1 / 100, moments = () \<rparr>,
       last_epoch = 0,
       best_acc = Num 0,
       files = [[''tensorboard''] \<mapsto> Dir, [''trained_models''] \<mapsto> Dir],
       writer = [] \<rparr>"

text \<open>What the checkpoint writes of an epoch need: the directory for the trained models
  exists and neither checkpoint path is a directory.\<close>

definition trained_ok :: "args \<Rightarrow> ('w, 'o) filesystem \<Rightarrow> bool" where
  "trained_ok a fs \<longleftrightarrow>
     isdir fs (trained_path a) \<and>
     fs (path_join (trained_path a) ''last.pt'') \<noteq> Some Dir \<and>
     fs (path_join (trained_path a) ''best.pt'') \<noteq> Some Dir"




definition demo_old_files :: "(unit, unit) filesystem" where
  "demo_old_files =
     [[''tensorboard''] \<mapsto> Dir, [''tensorboard'', ''events.old''] \<mapsto> OtherFile]"

text \<open>A file system is a tree when every proper ancestor of an entry is a directory.\<close>

definition well_formed :: "('w, 'o) filesystem \<Rightarrow> bool" where
  "well_formed fs \<longleftrightarrow> (\<forall>q p. fs q \<noteq> None \<and> strict_prefix p q \<longrightarrow> isdir fs p)"


section \<open>Properties of the network module\<close>

lemma make_block_ok:
  "6 \<le> h \<Longrightarrow> 6 \<le> w \<Longrightarrow>
   Sequential (apply_layer tr) (make_block cin cout) [n, cin, h, w] = Inr [n, cout, block_side h, block_side w]"
  by (simp add: make_block_def and_then_def conv2d_shape_def maxpool2d_shape_def block_side_def)
     (auto; presburger)

lemma make_block_small:
  "h < 6 \<or> w < 6 \<Longrightarrow>
   Sequential (apply_layer tr) (make_block cin cout) [n, c, h, w] \<in> {Inl ChannelMismatch, Inl KernelSizeError, Inl BatchNormSizeError, Inl PoolOutputSizeError}"
  by (auto simp add: make_block_def and_then_def conv2d_shape_def maxpool2d_shape_def)

lemma make_block_shape:
  "Sequential (apply_layer tr) (make_block cin cout) [n, c, h, w] = Inr y \<Longrightarrow> \<exists>h' w'. y = [n, cout, h', w']"
  by (auto simp add: make_block_def and_then_def conv2d_shape_def maxpool2d_shape_def split: if_splits)

lemma fc_shape:
  "and_then (view_flatten [n, c, h, w]) (\<lambda>x.
     and_then (Sequential (apply_layer tr) [Dropout, Linear 5184 1024, LeakyReLU] x) (\<lambda>x.
     and_then (Sequential (apply_layer tr) [Dropout, Linear 1024 512, LeakyReLU] x) (\<lambda>x.
     Sequential (apply_layer tr) [Dropout, Linear 512 nc] x))) =
   (if n = 0 then Inl ViewError
    else if c * h * w \<noteq> 5184 then Inl (ShapeMismatch (c * h * w) 5184)
    else Inr [n, nc])"
  by (simp add: and_then_def view_flatten_def mult.assoc)

lemma forward_blocks:
  "forward (apply_layer tr) view_flatten (CNN_init nc) x =
     and_then (Sequential (apply_layer tr) (make_block 3 16) x) (\<lambda>x.
     and_then (Sequential (apply_layer tr) (make_block 16 32) x) (\<lambda>x.
     and_then (Sequential (apply_layer tr) (make_block 32 64) x) (\<lambda>x.
     and_then (Sequential (apply_layer tr) (make_block 64 64) x) (\<lambda>x.
     and_then (view_flatten x) (\<lambda>x.
     and_then (Sequential (apply_layer tr) [Dropout, Linear 5184 1024, LeakyReLU] x) (\<lambda>x.
     and_then (Sequential (apply_layer tr) [Dropout, Linear 1024 512, LeakyReLU] x) (\<lambda>x.
     Sequential (apply_layer tr) [Dropout, Linear 512 nc] x)))))))"
  by (simp add: forward_def CNN_init_def)

lemma and_then_Inr: "and_then (Inr x) f = f x"
  by (simp add: and_then_def)

lemma and_then_Inl: "and_then (Inl e) f = Inl e"
  by (simp add: and_then_def)

lemma forward_large:
  assumes "76 \<le> h" "76 \<le> w"
  shows "forward (apply_layer tr) view_flatten (CNN_init nc) [n, 3, h, w] =
     (if n = 0 then Inl ViewError
      else if 64 * final_side h * final_side w \<noteq> 5184
        then Inl (ShapeMismatch (64 * final_side h * final_side w) 5184)
      else Inr [n, nc])"
proof -
  have a: "6 \<le> h" "6 \<le> w" using assms by simp_all
  have b: "6 \<le> block_side h" "6 \<le> block_side w"
    using assms by (simp_all add: block_side_def)
  have c: "6 \<le> block_side (block_side h)" "6 \<le> block_side (block_side w)"
    using assms by (simp_all add: block_side_def)
  have d: "6 \<le> block_side (block_side (block_side h))" "6 \<le> block_side (block_side (block_side w))"
    using assms by (simp_all add: block_side_def)
  show ?thesis
    unfolding forward_blocks
    by (simp only: make_block_ok [OF a] make_block_ok [OF b] make_block_ok [OF c]
          make_block_ok [OF d] and_then_Inr fc_shape final_side_def)
qed

lemma block_side_bounds:
  "1 \<le> lo \<Longrightarrow> (lo \<le> block_side s \<and> block_side s \<le> hi) = (2 * lo + 4 \<le> s \<and> s \<le> 2 * hi + 5)"
  unfolding block_side_def by arith

lemma final_side_9: "final_side s = 9 \<longleftrightarrow> 204 \<le> s \<and> s \<le> 219"
proof -
  have "final_side s = 9 \<longleftrightarrow>
      9 \<le> block_side (block_side (block_side (block_side s))) \<and>
      block_side (block_side (block_side (block_side s))) \<le> 9"
    unfolding final_side_def by auto
  then show ?thesis
    by (simp add: block_side_bounds)
qed

lemma sq81: "(g::nat) * g = 81 \<longleftrightarrow> g = 9"
proof
  assume h: "g * g = 81"
  have "\<not> g < 9"
  proof
    assume "g < 9"
    then have "g \<le> 8" by simp
    then have "g * g \<le> 8 * 8" using mult_le_mono [of g 8 g 8] by simp
    with h show False by simp
  qed
  moreover have "\<not> 9 < g"
  proof
    assume "9 < g"
    then have "10 \<le> g" by simp
    then have "10 * 10 \<le> g * g" using mult_le_mono [of 10 g 10 g] by simp
    with h show False by simp
  qed
  ultimately show "g = 9" by simp
qed simp

lemma block_Inr:
  assumes "Sequential (apply_layer tr) (make_block cin cout) [n, c, h, w] = Inr y"
  shows "y = [n, cout, block_side h, block_side w] \<and> 6 \<le> h \<and> 6 \<le> w \<and> c = cin"
proof -
  have hw: "6 \<le> h \<and> 6 \<le> w"
    using assms make_block_small [of h w tr cin cout n c] by (cases "h < 6 \<or> w < 6") auto
  have c: "c = cin"
    using assms
    by (auto simp add: make_block_def and_then_def conv2d_shape_def split: if_splits)
  with hw assms show ?thesis
    by (simp add: make_block_ok)
qed

lemma block_Inl:
  assumes "Sequential (apply_layer tr) (make_block cin cout) [n, c, h, w] = Inl e"
  shows "e \<in> {ChannelMismatch, KernelSizeError, BatchNormSizeError, PoolOutputSizeError}"
  using assms
  by (auto simp add: make_block_def and_then_def conv2d_shape_def maxpool2d_shape_def
      split: if_splits)

lemma block_side_lower: "k \<le> block_side s \<Longrightarrow> 1 \<le> k \<Longrightarrow> 2 * k + 4 \<le> s"
  unfolding block_side_def by arith

lemma forward_small:
  assumes "h < 76 \<or> w < 76 \<or> c \<noteq> 3"
  shows "\<exists>e. forward (apply_layer tr) view_flatten (CNN_init nc) [n, c, h, w] = Inl e \<and>
     e \<in> {ChannelMismatch, KernelSizeError, BatchNormSizeError, PoolOutputSizeError}"
proof (cases "Sequential (apply_layer tr) (make_block 3 16) [n, c, h, w]")
  case (Inl e)
  then show ?thesis
    using block_Inl [OF Inl] by (simp add: forward_blocks and_then_Inl)
next
  case r1: (Inr y1)
  note b1 = block_Inr [OF r1]
  show ?thesis
  proof (cases "Sequential (apply_layer tr) (make_block 16 32) y1")
    case (Inl e)
    then show ?thesis
      using b1 r1 block_Inl [of tr 16 32 n 16 "block_side h" "block_side w" e]
      by (simp add: forward_blocks and_then_Inl and_then_Inr)
  next
    case r2: (Inr y2)
    have b2: "y2 = [n, 32, block_side (block_side h), block_side (block_side w)] \<and>
        6 \<le> block_side h \<and> 6 \<le> block_side w"
      using b1 r2 block_Inr [of tr 16 32 n 16 "block_side h" "block_side w" y2] by simp
    show ?thesis
    proof (cases "Sequential (apply_layer tr) (make_block 32 64) y2")
      case (Inl e)
      then show ?thesis
        using b2 r1 r2
          block_Inl [of tr 32 64 n 32 "block_side (block_side h)" "block_side (block_side w)" e]
        by (simp add: forward_blocks and_then_Inl and_then_Inr)
    next
      case r3: (Inr y3)
      have b3: "y3 = [n, 64, block_side (block_side (block_side h)),
            block_side (block_side (block_side w))] \<and>
          6 \<le> block_side (block_side h) \<and> 6 \<le> block_side (block_side w)"
        using b2 r3
          block_Inr [of tr 32 64 n 32 "block_side (block_side h)" "block_side (block_side w)" y3]
        by simp
      show ?thesis
      proof (cases "Sequential (apply_layer tr) (make_block 64 64) y3")
        case (Inl e)
        then show ?thesis
          using b3 r1 r2 r3
            block_Inl [of tr 64 64 n 64 "block_side (block_side (block_side h))"
              "block_side (block_side (block_side w))" e]
          by (simp add: forward_blocks and_then_Inl and_then_Inr)
      next
        case r4: (Inr y4)
        have "6 \<le> block_side (block_side (block_side h)) \<and>
            6 \<le> block_side (block_side (block_side w))"
          using b3 r4
            block_Inr [of tr 64 64 n 64 "block_side (block_side (block_side h))"
              "block_side (block_side (block_side w))" y4]
          by simp
        then have "16 \<le> block_side (block_side h) \<and> 16 \<le> block_side (block_side w)"
          using block_side_lower [of 6 "block_side (block_side h)"]
            block_side_lower [of 6 "block_side (block_side w)"] by simp
        then have "36 \<le> block_side h \<and> 36 \<le> block_side w"
          using block_side_lower [of 16 "block_side h"] block_side_lower [of 16 "block_side w"]
          by simp
        then have "76 \<le> h \<and> 76 \<le> w"
          using block_side_lower [of 36 h] block_side_lower [of 36 w] by simp
        moreover have "c = 3" using b1 by simp
        ultimately have "\<not> (h < 76 \<or> w < 76 \<or> c \<noteq> 3)" by simp
        with assms show ?thesis by blast
      qed
    qed
  qed
qed

lemma forward_square:
  assumes "0 < n" "76 \<le> s"
  shows "forward (apply_layer tr) view_flatten (CNN_init nc) [n, 3, s, s] =
     (if 204 \<le> s \<and> s \<le> 219 then Inr [n, nc]
      else Inl (ShapeMismatch (64 * final_side s * final_side s) 5184))"
proof -
  have "64 * final_side s * final_side s = 5184 \<longleftrightarrow> final_side s * final_side s = 81"
    by simp
  then have "64 * final_side s * final_side s = 5184 \<longleftrightarrow> 204 \<le> s \<and> s \<le> 219"
    by (simp only: sq81 final_side_9)
  then show ?thesis
    using assms by (simp add: forward_large)
qed

lemma and_then_eq_Inr: "and_then m f = Inr z \<longleftrightarrow> (\<exists>x. m = Inr x \<and> f x = Inr z)"
  by (cases m) (simp_all add: and_then_def)

lemma forward_returns_fc3:
  assumes "forward call view (CNN_init nc) x = Inr z"
  shows "\<exists>u. call (Linear 512 nc) u = Inr z"
proof -
  from assms obtain v where "Sequential call [Dropout, Linear 512 nc] v = Inr z"
    unfolding forward_def CNN_init_def by (auto simp only: and_then_eq_Inr CNN.simps)
  then show ?thesis
    by (auto simp: and_then_eq_Inr)
qed

text \<open>
  C6. Whenever the forward pass on a batch of images succeeds, its output has the batch
  dimension of the input and a class dimension equal to the number of classes the network
  was built with; it does succeed on batches of RGB images of side 204, in training and
  in evaluation mode. Whatever the layers compute, the tensor that a successful forward
  pass returns is the one returned by the last linear layer, from 512 features to the
  classes: nothing, and so no probability normalisation, is applied to the logits.
\<close>

theorem forward_output_shape:
  "(forward (apply_layer tr) view_flatten (CNN_init nc) [n, c, h, w] = Inr y \<longrightarrow> y = [n, nc]) \<and>
   (0 < n \<longrightarrow> forward (apply_layer tr) view_flatten (CNN_init nc) [n, 3, 204, 204] = Inr [n, nc]) \<and>
   (forward call view (CNN_init nc) x = Inr z \<longrightarrow> (\<exists>u. call (Linear 512 nc) u = Inr z))"
proof (intro conjI impI)
  assume ok: "forward (apply_layer tr) view_flatten (CNN_init nc) [n, c, h, w] = Inr y"
  have "\<not> (h < 76 \<or> w < 76 \<or> c \<noteq> 3)"
    using forward_small [of h w c tr nc n] ok by auto
  then have "76 \<le> h" "76 \<le> w" "c = 3" by simp_all
  then show "y = [n, nc]"
    using ok by (simp add: forward_large split: if_splits)
next
  assume "0 < n"
  then show "forward (apply_layer tr) view_flatten (CNN_init nc) [n, 3, 204, 204] = Inr [n, nc]"
    by (simp add: forward_square)
next
  assume "forward call view (CNN_init nc) x = Inr z"
  then show "\<exists>u. call (Linear 512 nc) u = Inr z"
    by (rule forward_returns_fc3)
qed

theorem forward_output_shape_witness:
  "forward (apply_layer True) view_flatten (CNN_init 10) [16, 3, 204, 204] = Inr [16, 10] \<and>
   forward (apply_layer False) view_flatten (CNN_init 10) [16, 3, 204, 204] = Inr [16, 10] \<and>
   (\<exists>u. apply_layer True (Linear 512 10) u = Inr [16, 10])"
proof -
  note t = forward_output_shape [where tr = True and nc = 10 and n = 16 and c = 3 and h = 204
      and w = 204 and y = "[16, 10]" and call = "apply_layer True" and view = view_flatten
      and x = "[16, 3, 204, 204]" and z = "[16, 10]"]
  note f = forward_output_shape [where tr = False and nc = 10 and n = 16 and c = 3 and h = 204
      and w = 204 and y = "[16, 10]" and call = "apply_layer False" and view = view_flatten
      and x = "[16, 3, 204, 204]" and z = "[16, 10]"]
  have a: "forward (apply_layer True) view_flatten (CNN_init 10) [16, 3, 204, 204] = Inr [16, 10]"
    using t [THEN conjunct2, THEN conjunct1] by simp
  have b: "forward (apply_layer False) view_flatten (CNN_init 10) [16, 3, 204, 204] = Inr [16, 10]"
    using f [THEN conjunct2, THEN conjunct1] by simp
  have "\<exists>u. apply_layer True (Linear 512 10) u = Inr [16, 10]"
    using t [THEN conjunct2, THEN conjunct2] a by blast
  with a b show ?thesis by simp
qed

text \<open>
  C7, as the code has it. The first dense layer takes 5184 = 64 * 9 * 9 features. A
  block maps a side \<open>s\<close> to \<open>(s - 4) div 2\<close>, and four blocks map the sides 204 to 219,
  and no others, to 9. So on a batch of square RGB images the forward pass succeeds
  exactly for the sides 204 to 219; for any other side of at least 76 it fails with a
  shape mismatch at the first dense layer, and for a smaller side it fails inside the
  convolutional blocks.
\<close>

theorem fc1_feature_size:
  "fc1 (CNN_init nc) = [Dropout, Linear 5184 1024, LeakyReLU] \<and>
   (5184 :: nat) = 64 * 9 * 9 \<and>
   (final_side s = 9 \<longleftrightarrow> 204 \<le> s \<and> s \<le> 219) \<and>
   (0 < n \<longrightarrow> (forward (apply_layer tr) view_flatten (CNN_init nc) [n, 3, s, s] = Inr [n, nc]) = (204 \<le> s \<and> s \<le> 219)) \<and>
   (0 < n \<longrightarrow> 76 \<le> s \<longrightarrow> \<not> (204 \<le> s \<and> s \<le> 219) \<longrightarrow>
      forward (apply_layer tr) view_flatten (CNN_init nc) [n, 3, s, s] =
        Inl (ShapeMismatch (64 * final_side s * final_side s) 5184)) \<and>
   (s < 76 \<longrightarrow> (\<exists>e. forward (apply_layer tr) view_flatten (CNN_init nc) [n, 3, s, s] = Inl e \<and>
      e \<in> {ChannelMismatch, KernelSizeError, BatchNormSizeError, PoolOutputSizeError}))"
proof (intro conjI impI)
  show "fc1 (CNN_init nc) = [Dropout, Linear 5184 1024, LeakyReLU]"
    by (simp add: CNN_init_def)
  show "(5184 :: nat) = 64 * 9 * 9" by simp
  show "final_side s = 9 \<longleftrightarrow> 204 \<le> s \<and> s \<le> 219" by (rule final_side_9)
next
  assume n: "0 < n"
  show "(forward (apply_layer tr) view_flatten (CNN_init nc) [n, 3, s, s] = Inr [n, nc]) = (204 \<le> s \<and> s \<le> 219)"
  proof (cases "76 \<le> s")
    case True
    with n show ?thesis by (simp add: forward_square)
  next
    case False
    then show ?thesis
      using forward_small [of s s 3 tr nc n] by auto
  qed
next
  assume "0 < n" "76 \<le> s" "\<not> (204 \<le> s \<and> s \<le> 219)"
  then show "forward (apply_layer tr) view_flatten (CNN_init nc) [n, 3, s, s] =
      Inl (ShapeMismatch (64 * final_side s * final_side s) 5184)"
    by (simp add: forward_square)
next
  assume "s < 76"
  then show "\<exists>e. forward (apply_layer tr) view_flatten (CNN_init nc) [n, 3, s, s] = Inl e \<and>
      e \<in> {ChannelMismatch, KernelSizeError, BatchNormSizeError, PoolOutputSizeError}"
    using forward_small [of s s 3 tr nc n] by simp
qed

theorem fc1_feature_size_witness:
  "forward (apply_layer True) view_flatten (CNN_init 10) [2, 3, 204, 204] = Inr [2, 10] \<and>
   forward (apply_layer True) view_flatten (CNN_init 10) [2, 3, 219, 219] = Inr [2, 10] \<and>
   forward (apply_layer True) view_flatten (CNN_init 10) [2, 3, 300, 300] = Inl (ShapeMismatch 14400 5184) \<and>
   (\<exists>e. forward (apply_layer True) view_flatten (CNN_init 10) [2, 3, 40, 40] = Inl e)"
proof -
  have s: "final_side 300 = 15"
    by (simp add: final_side_def block_side_def)
  have a: "forward (apply_layer True) view_flatten (CNN_init 10) [2, 3, 204, 204] = Inr [2, 10]"
    using fc1_feature_size [of 10 204 2 True] by simp
  have b: "forward (apply_layer True) view_flatten (CNN_init 10) [2, 3, 219, 219] = Inr [2, 10]"
    using fc1_feature_size [of 10 219 2 True] by simp
  have c: "forward (apply_layer True) view_flatten (CNN_init 10) [2, 3, 300, 300] = Inl (ShapeMismatch 14400 5184)"
    using fc1_feature_size [of 10 300 2 True] by (simp add: s)
  have d: "\<exists>e. forward (apply_layer True) view_flatten (CNN_init 10) [2, 3, 40, 40] = Inl e"
    using fc1_feature_size [of 10 40 2 True, THEN conjunct2, THEN conjunct2, THEN conjunct2,
        THEN conjunct2, THEN conjunct2]
    by auto
  from a b c d show ?thesis by simp
qed

theorem default_image_size_counterexample:
  "forward (apply_layer True) view_flatten (CNN_init 10)
     [nat (batch_size get_args_defaults), 3, nat (image_size get_args_defaults),
      nat (image_size get_args_defaults)] = Inl (ShapeMismatch 6400 5184) \<and>
   forward (apply_layer True) view_flatten (CNN_init 10) [2, 3, 204, 204] = Inr [2, 10] \<and>
   forward (apply_layer True) view_flatten (CNN_init 10) [2, 3, 205, 205] = Inr [2, 10]"
proof -
  have s: "final_side 224 = 10"
    by (simp add: final_side_def block_side_def)
  have "forward (apply_layer True) view_flatten (CNN_init 10) [16, 3, 224, 224] = Inl (ShapeMismatch 6400 5184)"
    by (simp add: forward_square s)
  then show ?thesis
    by (simp add: get_args_defaults_def forward_square)
qed

section \<open>Properties of the validation metrics\<close>

lemma map_result_Inr_iff:
  "map_result f xs = Inr ys \<longleftrightarrow> list_all2 (\<lambda>x y. f x = Inr y) xs ys"
proof (induction xs arbitrary: ys)
  case Nil
  then show ?case by auto
next
  case (Cons x xs)
  show ?case
  proof (cases "f x")
    case (Inl e)
    then show ?thesis by (auto simp: and_then_def list_all2_Cons1)
  next
    case fx: (Inr y)
    show ?thesis
    proof (cases "map_result f xs")
      case (Inl e)
      with fx Cons.IH show ?thesis
        by (auto simp: and_then_def list_all2_Cons1)
    next
      case (Inr zs)
      with fx Cons.IH show ?thesis
        by (auto simp: and_then_def list_all2_Cons1)
    qed
  qed
qed

lemma map_result_map: "map_result f (map g xs) = map_result (\<lambda>x. f (g x)) xs"
  by (induction xs) simp_all

lemma map_result_compose:
  assumes "map_result f xs = Inr ys" "map_result g ys = Inr zs"
  shows "map_result (\<lambda>x. and_then (f x) g) xs = Inr zs"
proof -
  have "list_all2 (\<lambda>x y. f x = Inr y) xs ys" "list_all2 (\<lambda>y z. g y = Inr z) ys zs"
    using assms by (simp_all add: map_result_Inr_iff)
  then have "list_all2 (\<lambda>x z. and_then (f x) g = Inr z) xs zs"
  proof (induction xs ys arbitrary: zs rule: list_all2_induct)
    case Nil
    then show ?case by simp
  next
    case (Cons x xs y ys)
    then show ?case by (auto simp: list_all2_Cons1 and_then_def)
  qed
  then show ?thesis by (simp add: map_result_Inr_iff)
qed

lemma list_all2_Inr_append:
  "list_all2 (\<lambda>x y. f x = Inr y) xs ys \<Longrightarrow> list_all2 (\<lambda>x y. f x = Inr y) xs' ys' \<Longrightarrow>
   list_all2 (\<lambda>x y. f x = Inr y) (xs @ xs') (ys @ ys')"
  by (rule list_all2_appendI)

lemma validation_loop_Inr:
  assumes "validation_loop network batches (g, p) = Inr (gts, preds)"
  shows "gts = g @ map snd (concat batches) \<and>
    (\<exists>new. preds = p @ new \<and>
       map_result (\<lambda>s. and_then (network (fst s)) argmax) (concat batches) = Inr new)"
  using assms
proof (induction batches arbitrary: g p)
  case Nil
  then show ?case by simp
next
  case (Cons batch rest)
  from Cons.prems obtain predictions where
    a: "map_result network (map fst batch) = Inr predictions"
    by (cases "map_result network (map fst batch)") (auto simp: and_then_def Let_def)
  from Cons.prems a obtain max_idx where
    b: "map_result argmax predictions = Inr max_idx"
    by (cases "map_result argmax predictions") (auto simp: and_then_def Let_def)
  from Cons.prems a b have
    c: "validation_loop network rest (g @ map snd batch, p @ max_idx) = Inr (gts, preds)"
    by (cases "criterion predictions (map snd batch)") (simp_all add: and_then_def Let_def)
  from Cons.IH [OF c] obtain new where
    d: "gts = (g @ map snd batch) @ map snd (concat rest)" "preds = (p @ max_idx) @ new"
      "map_result (\<lambda>s. and_then (network (fst s)) argmax) (concat rest) = Inr new"
    by blast
  have "map_result (\<lambda>s. network (fst s)) batch = Inr predictions"
    using a by (simp add: map_result_map)
  from map_result_compose [OF this b]
  have e: "map_result (\<lambda>s. and_then (network (fst s)) argmax) batch = Inr max_idx" .
  have "map_result (\<lambda>s. and_then (network (fst s)) argmax) (batch @ concat rest) =
      Inr (max_idx @ new)"
    using e d(3) by (simp add: map_result_Inr_iff list_all2_appendI)
  with d show ?case by simp
qed


lemma matches_card:
  assumes "length xs = length ys"
  shows "length (filter (\<lambda>(t, p). t = p) (zip xs ys)) = correct_count xs ys"
proof -
  have "{i. i < length (zip xs ys) \<and> (case zip xs ys ! i of (t, p) \<Rightarrow> t = p)} =
      {i. i < length xs \<and> ys ! i = xs ! i}"
    using assms by auto
  then show ?thesis
    by (simp add: length_filter_conv_card correct_count_def)
qed

lemma accuracy_score_eq:
  assumes "length xs = length ys" "xs \<noteq> []"
  shows "accuracy_score xs ys = Inr (Num (of_nat (correct_count xs ys) / of_nat (length xs)))"
  using assms by (simp add: accuracy_score_def matches_card)

lemma correct_count_all: "correct_count xs xs = length xs"
  by (simp add: correct_count_def)


lemma demo_validation:
  "validation_loop (net demo_env w) [demo_valid_set] ([], []) = Inr ([0, 0, 1, 1], [0, 1, 1, 1])"
  by (simp add: demo_env_def demo_valid_set_def demo_net_def and_then_def argmax_def criterion_def)

text \<open>
  C4. On a validation set of four samples of two classes whose labels are [0,0,1,1] and
  on which the network predicts [0,1,1,1], the validation loop accumulates these two
  lists, the accuracy is 0.75 and the confusion matrix is [[1,1],[0,2]].
\<close>

theorem scenario_two_classes:
  "validation_loop (net demo_env ()) [demo_valid_set] ([], []) =
     Inr ([0, 0, 1, 1], [0, 1, 1, 1]) \<and>
   accuracy_score [0, 0, 1, 1] [0, 1, 1, 1] = Inr (Num (3 / 4)) \<and>
   confusion_matrix [0, 0, 1, 1] [0, 1, 1, 1] = Inr [[1, 1], [0, 2]]"
  by (simp add: demo_validation accuracy_score_def confusion_matrix_def unique_labels_def
      del: validation_loop.simps)

lemma sum_list_indicator:
  "distinct ls \<Longrightarrow>
   sum_list (map (\<lambda>p. if q = p then 1 else 0) ls) = (if q \<in> set ls then 1 else (0::nat))"
  by (induction ls) auto

lemma row_sum_count:
  assumes "distinct ls" "length xs = length ys" "set ys \<subseteq> set ls"
  shows "sum_list (map (\<lambda>p. count_list (zip xs ys) (t, p)) ls) = count_list xs t"
  using assms(2,3)
proof (induction xs ys rule: list_induct2)
  case Nil
  then show ?case by simp
next
  case (Cons x xs y ys)
  have "sum_list (map (\<lambda>p. count_list (zip (x # xs) (y # ys)) (t, p)) ls) =
      sum_list (map (\<lambda>p. count_list (zip xs ys) (t, p) + (if x = t then (if y = p then 1 else 0) else 0)) ls)"
    by (rule arg_cong [where f = sum_list], rule map_cong) auto
  also have "\<dots> = sum_list (map (\<lambda>p. count_list (zip xs ys) (t, p)) ls) +
      sum_list (map (\<lambda>p. if x = t then (if y = p then 1 else 0) else 0) ls)"
    by (simp add: sum_list_addf)
  also have "sum_list (map (\<lambda>p. if x = t then (if y = p then 1 else 0) else 0) ls) =
      (if x = t then 1 else (0::nat))"
    using sum_list_indicator [OF assms(1), of y] Cons.prems by (cases "x = t") auto
  finally show ?case using Cons by simp
qed

lemma diag_sum_count:
  assumes "distinct ls" "length xs = length ys" "set xs \<subseteq> set ls"
  shows "sum_list (map (\<lambda>l. count_list (zip xs ys) (l, l)) ls) =
    length (filter (\<lambda>(t, p). t = p) (zip xs ys))"
  using assms(2,3)
proof (induction xs ys rule: list_induct2)
  case Nil
  then show ?case by simp
next
  case (Cons x xs y ys)
  have "sum_list (map (\<lambda>l. count_list (zip (x # xs) (y # ys)) (l, l)) ls) =
      sum_list (map (\<lambda>l. count_list (zip xs ys) (l, l) + (if x = y then (if x = l then 1 else 0) else 0)) ls)"
    by (rule arg_cong [where f = sum_list], rule map_cong) auto
  also have "\<dots> = sum_list (map (\<lambda>l. count_list (zip xs ys) (l, l)) ls) +
      sum_list (map (\<lambda>l. if x = y then (if x = l then 1 else 0) else 0) ls)"
    by (simp add: sum_list_addf)
  also have "sum_list (map (\<lambda>l. if x = y then (if x = l then 1 else 0) else 0) ls) =
      (if x = y then 1 else (0::nat))"
    using sum_list_indicator [OF assms(1), of x] Cons.prems by (cases "x = y") auto
  finally show ?case using Cons by simp
qed

lemma unique_labels_props:
  "distinct (unique_labels xs ys)" "set (unique_labels xs ys) = set xs \<union> set ys"
  "sorted (unique_labels xs ys)"
  by (simp_all add: unique_labels_def)

lemma sum_list_nth:
  "sum_list (map (\<lambda>i. f (ls ! i)) [0..<length ls]) = sum_list (map f ls)"
proof -
  have "map (\<lambda>i. f (ls ! i)) [0..<length ls] = map f (map ((!) ls) [0..<length ls])"
    by simp
  then show ?thesis by (simp only: map_nth)
qed

lemma confusion_matrix_rows:
  assumes "confusion_matrix gts preds = Inr cm"
  shows "length cm = length (unique_labels gts preds)"
    and "i < length cm \<Longrightarrow> sum_list (cm ! i) = count_list gts (unique_labels gts preds ! i)"
    and "trace cm = correct_count gts preds"
proof -
  let ?ls = "unique_labels gts preds"
  from assms have len: "length gts = length preds"
    and cm: "cm = map (\<lambda>t. map (\<lambda>p. count_list (zip gts preds) (t, p)) ?ls) ?ls"
    by (auto simp: confusion_matrix_def Let_def split: if_splits)
  show l: "length cm = length ?ls" by (simp add: cm)
  show "sum_list (cm ! i) = count_list gts (?ls ! i)" if "i < length cm"
    using that row_sum_count [OF unique_labels_props(1) len, where t = "?ls ! i"]
    by (simp add: cm unique_labels_props(2))
  have "trace cm = sum_list (map (\<lambda>i. count_list (zip gts preds) (?ls ! i, ?ls ! i)) [0..<length ?ls])"
    unfolding trace_def l by (rule arg_cong [where f = sum_list], rule map_cong) (auto simp: cm)
  also have "\<dots> = sum_list (map (\<lambda>l. count_list (zip gts preds) (l, l)) ?ls)"
    by (rule sum_list_nth)
  also have "\<dots> = length (filter (\<lambda>(t, p). t = p) (zip gts preds))"
    using diag_sum_count [OF unique_labels_props(1) len]
    by (simp add: unique_labels_props(2))
  finally show "trace cm = correct_count gts preds"
    by (simp add: matches_card [OF len])
qed

text \<open>
  C5, at a validation epoch of a three-class run in which class 1 has no sample and is
  never predicted: the matrix has two rows, row 1 counts the samples of class 2 while no
  sample has class 1, and the script plots this matrix under the three class names.
\<close>

theorem confusion_matrix_absent_class:
  "confusion_matrix [0, 2] [0, 2] = Inr [[1, 0], [0, 1]] \<and>
   sum_list ([[1, 0], [0, 1]] ! 1) = (1::nat) \<and>
   count_list [0, 2 :: nat] 1 = 0 \<and>
   trace [[1, 0], [0, 1]] = 2 \<and>
   plot_confusion_matrix [] [[1, 0], [0, 1]] [0..<3] 0 =
     Inr [Figure ''confusion_matrix'' [[1, 0], [0, 1]] [0, 1, 2] 0]"
  by (simp add: confusion_matrix_def unique_labels_def trace_def plot_confusion_matrix_def
      upt_rec numeral_eq_Suc)

section \<open>Properties of a run\<close>

lemma logged_accuracies_append:
  "logged_accuracies (xs @ ys) = logged_accuracies xs @ logged_accuracies ys"
  by (induction xs rule: logged_accuracies.induct) auto

lemma scheduler_step_simps:
  "files (scheduler_step st) = files st"
  "best_acc (scheduler_step st) = best_acc st"
  "writer (scheduler_step st) = writer st"
  "model (scheduler_step st) = model st"
  "moments (optimizer (scheduler_step st)) = moments (optimizer st)"
  "last_epoch (scheduler_step st) = last_epoch st + 1"
  "group_lr (optimizer (scheduler_step st)) =
     (if last_epoch st + 1 \<in> set milestones
      then group_lr (optimizer st) * gamma ^ count_list milestones (last_epoch st + 1)
      else group_lr (optimizer st))"
  by (simp_all add: scheduler_step_def MultiStepLR_step_def Let_def)

lemma torch_save_Inr:
  "torch_save obj p fs = Inr fs' \<Longrightarrow> fs' = fs(p \<mapsto> CheckpointFile obj)"
  by (auto simp: torch_save_def split: if_splits option.splits)

lemma save_checkpoints_Inr:
  assumes "save_checkpoints a epoch acc st = Inr st'"
  shows "st' = scheduler_step (st \<lparr>
      files :=
        (if float_gt acc (best_acc st)
         then ((files st)(path_join (trained_path a) ''last.pt'' \<mapsto> CheckpointFile
                 \<lparr> ck_model = model st, ck_optimizer = optimizer st, ck_epoch = epoch,
                   ck_best_acc = best_acc st, ck_batch_size = batch_size a \<rparr>))
               (path_join (trained_path a) ''best.pt'' \<mapsto> CheckpointFile
                 \<lparr> ck_model = model st, ck_optimizer = optimizer st, ck_epoch = epoch,
                   ck_best_acc = best_acc st, ck_batch_size = batch_size a \<rparr>)
         else (files st)(path_join (trained_path a) ''last.pt'' \<mapsto> CheckpointFile
                 \<lparr> ck_model = model st, ck_optimizer = optimizer st, ck_epoch = epoch,
                   ck_best_acc = best_acc st, ck_batch_size = batch_size a \<rparr>)),
      best_acc := (if float_gt acc (best_acc st) then acc else best_acc st) \<rparr>)"
  using assms unfolding save_checkpoints_def Let_def
  by (auto simp: and_then_eq_Inr split: if_splits dest!: torch_save_Inr)

lemma last_best_distinct: "path_join p ''last.pt'' \<noteq> path_join p ''best.pt''"
  by (simp add: path_join_def)

lemma confusion_matrix_nonempty:
  assumes "confusion_matrix gts preds = Inr cm" "cm \<noteq> []"
  shows "gts \<noteq> []" "length gts = length preds"
proof -
  from assms(1) show l: "length gts = length preds"
    by (auto simp: confusion_matrix_def split: if_splits)
  show "gts \<noteq> []"
  proof
    assume "gts = []"
    with l have "preds = []" by simp
    with \<open>gts = []\<close> assms show False
      by (simp add: confusion_matrix_def unique_labels_def)
  qed
qed

lemma run_epoch_Inr:
  assumes "run_epoch a env loader epoch st = Inr st'"
  shows "\<exists>w mo gts preds acc cm.
    fit env epoch (weights (model st)) (moments (optimizer st)) (group_lr (optimizer st)) = Inr (w, mo) \<and>
    validation_loop (net env w) loader ([], []) = Inr (gts, preds) \<and>
    accuracy_score gts preds = Inr acc \<and>
    confusion_matrix gts preds = Inr cm \<and> cm \<noteq> [] \<and>
    save_checkpoints a epoch acc
      (st \<lparr> model := (model st) \<lparr> weights := w \<rparr>,
            optimizer := (optimizer st) \<lparr> moments := mo \<rparr>,
            writer := writer st @ [Scalar ''Val/Accuracy'' acc epoch,
                       Figure ''confusion_matrix'' cm [0..<categories env] epoch] \<rparr>) = Inr st'"
  using assms unfolding run_epoch_def Let_def plot_confusion_matrix_def
  by (auto simp: and_then_eq_Inr split: if_splits)

lemma run_epoch_summary:
  assumes "run_epoch a env loader epoch st = Inr st'"
  shows "\<exists>w mo gts preds x cm ck.
    fit env epoch (weights (model st)) (moments (optimizer st)) (group_lr (optimizer st)) = Inr (w, mo) \<and>
    validation_loop (net env w) loader ([], []) = Inr (gts, preds) \<and>
    gts \<noteq> [] \<and> length gts = length preds \<and>
    x = of_nat (correct_count gts preds) / of_nat (length gts) \<and>
    confusion_matrix gts preds = Inr cm \<and>
    writer st' = writer st @ [Scalar ''Val/Accuracy'' (Num x) epoch,
                   Figure ''confusion_matrix'' cm [0..<categories env] epoch] \<and>
    ck = \<lparr> ck_model = (model st) \<lparr> weights := w \<rparr>,
           ck_optimizer = (optimizer st) \<lparr> moments := mo \<rparr>,
           ck_epoch = epoch, ck_best_acc = best_acc st, ck_batch_size = batch_size a \<rparr> \<and>
    files st' =
      (if float_gt (Num x) (best_acc st)
       then ((files st)(path_join (trained_path a) ''last.pt'' \<mapsto> CheckpointFile ck))
              (path_join (trained_path a) ''best.pt'' \<mapsto> CheckpointFile ck)
       else (files st)(path_join (trained_path a) ''last.pt'' \<mapsto> CheckpointFile ck)) \<and>
    best_acc st' = (if float_gt (Num x) (best_acc st) then Num x else best_acc st) \<and>
    model st' = (model st) \<lparr> weights := w \<rparr> \<and>
    last_epoch st' = last_epoch st + 1 \<and>
    group_lr (optimizer st') =
      (if last_epoch st + 1 \<in> set milestones
       then group_lr (optimizer st) * gamma ^ count_list milestones (last_epoch st + 1)
       else group_lr (optimizer st))"
proof -
  from run_epoch_Inr [OF assms] obtain w mo gts preds acc cm where
    f: "fit env epoch (weights (model st)) (moments (optimizer st)) (group_lr (optimizer st)) = Inr (w, mo)"
    and v: "validation_loop (net env w) loader ([], []) = Inr (gts, preds)"
    and ac: "accuracy_score gts preds = Inr acc"
    and cm: "confusion_matrix gts preds = Inr cm" "cm \<noteq> []"
    and s: "save_checkpoints a epoch acc
      (st \<lparr> model := (model st) \<lparr> weights := w \<rparr>,
            optimizer := (optimizer st) \<lparr> moments := mo \<rparr>,
            writer := writer st @ [Scalar ''Val/Accuracy'' acc epoch,
                       Figure ''confusion_matrix'' cm [0..<categories env] epoch] \<rparr>) = Inr st'"
    by blast
  note ne = confusion_matrix_nonempty [OF cm]
  have acc: "acc = Num (of_nat (correct_count gts preds) / of_nat (length gts))"
    using ac accuracy_score_eq [OF ne(2) ne(1)] by simp
  note st' = save_checkpoints_Inr [OF s]
  show ?thesis
    apply (rule exI [where x = w], rule exI [where x = mo], rule exI [where x = gts],
        rule exI [where x = preds],
        rule exI [where x = "of_nat (correct_count gts preds) / of_nat (length gts)"],
        rule exI [where x = cm])
    apply (rule exI [where x = "\<lparr> ck_model = (model st) \<lparr> weights := w \<rparr>,
           ck_optimizer = (optimizer st) \<lparr> moments := mo \<rparr>,
           ck_epoch = epoch, ck_best_acc = best_acc st, ck_batch_size = batch_size a \<rparr>"])
    using f v ne cm(1)
    by (simp add: st' acc scheduler_step_simps)
qed

lemma demo_loader: "DataLoader (batch_size get_args_defaults) (valid_set demo_env) = Inr [demo_valid_set]"
  by (simp add: DataLoader_def get_args_defaults_def demo_env_def demo_valid_set_def chunks.simps)

lemma demo_start:
  "start_run get_args_defaults demo_env Map.empty = Inr (0, [demo_valid_set], demo_state)"
  using demo_loader
  by (simp add: start_run_def and_then_def resume_def get_args_defaults_def demo_env_def
      MultiStepLR_def MultiStepLR_step_def milestones_def prepare_tensorboard_def
      prepare_trained_def isdir_def mkdir_def parent_error_def demo_state_def Let_def)

lemma demo_env_simps:
  "fit demo_env e w mo l = Inr (w, mo)" "categories demo_env = 2"
  "valid_set demo_env = demo_valid_set" "net demo_env w = demo_net"
  by (simp_all add: demo_env_def)

lemma validation_loop_lengths:
  "validation_loop network batches (g, p) = Inr (gts, preds) \<Longrightarrow> length g = length p \<Longrightarrow>
   length gts = length preds"
proof -
  assume a: "validation_loop network batches (g, p) = Inr (gts, preds)" and l: "length g = length p"
  from validation_loop_Inr [OF a] obtain new where
    n: "gts = g @ map snd (concat batches)" "preds = p @ new"
      "map_result (\<lambda>s. and_then (network (fst s)) argmax) (concat batches) = Inr new"
    by blast
  from n(3) have "length new = length (concat batches)"
    by (auto simp: map_result_Inr_iff dest: list_all2_lengthD)
  with n l show ?thesis by simp
qed

lemma confusion_matrix_ok:
  assumes "length gts = length preds" "gts \<noteq> []"
  shows "\<exists>cm. confusion_matrix gts preds = Inr cm \<and> cm \<noteq> []"
proof -
  have "unique_labels gts preds \<noteq> []"
    using assms(2) unique_labels_props(2) [of gts preds] by (cases gts) auto
  then show ?thesis
    using assms(1) by (simp add: confusion_matrix_def Let_def)
qed

lemma save_checkpoints_ok:
  assumes "trained_ok a (files st)"
  shows "\<exists>st'. save_checkpoints a epoch acc st = Inr st' \<and> trained_ok a (files st')"
proof -
  have j: "butlast (path_join (trained_path a) n) = trained_path a"
    "path_join (trained_path a) n \<noteq> []" "path_join (trained_path a) n \<noteq> trained_path a" for n
    by (simp_all add: path_join_def)
  show ?thesis
    using assms unfolding save_checkpoints_def Let_def trained_ok_def
    by (auto simp: torch_save_def parent_error_def isdir_def j and_then_def
        scheduler_step_simps)
qed

lemma run_epoch_ok:
  assumes "fit env epoch (weights (model st)) (moments (optimizer st)) (group_lr (optimizer st)) = Inr (w, mo)"
    and "validation_loop (net env w) loader ([], []) = Inr (gts, preds)"
    and "gts \<noteq> []"
    and "trained_ok a (files st)"
  shows "\<exists>st'. run_epoch a env loader epoch st = Inr st' \<and> trained_ok a (files st')"
proof -
  have len: "length gts = length preds"
    using validation_loop_lengths [OF assms(2)] by simp
  from confusion_matrix_ok [OF len assms(3)] obtain cm where
    cm: "confusion_matrix gts preds = Inr cm" "cm \<noteq> []" by blast
  have acc: "accuracy_score gts preds =
      Inr (Num (of_nat (correct_count gts preds) / of_nat (length gts)))"
    by (rule accuracy_score_eq [OF len assms(3)])
  let ?st = "st \<lparr> model := (model st) \<lparr> weights := w \<rparr>,
            optimizer := (optimizer st) \<lparr> moments := mo \<rparr>,
            writer := writer st @
              [Scalar ''Val/Accuracy'' (Num (of_nat (correct_count gts preds) / of_nat (length gts))) epoch,
               Figure ''confusion_matrix'' cm [0..<categories env] epoch] \<rparr>"
  have "trained_ok a (files ?st)" using assms(4) by simp
  from save_checkpoints_ok [OF this] obtain st' where
    s: "save_checkpoints a epoch (Num (of_nat (correct_count gts preds) / of_nat (length gts))) ?st = Inr st'"
      "trained_ok a (files st')"
    by blast
  have "run_epoch a env loader epoch st = Inr st'"
    unfolding run_epoch_def
    using assms(1,2) acc cm s(1)
    by (simp add: and_then_Inr Let_def plot_confusion_matrix_def)
  with s(2) show ?thesis by blast
qed



lemma demo_state_ok: "trained_ok get_args_defaults (files demo_state)"
  by (simp add: trained_ok_def demo_state_def get_args_defaults_def isdir_def path_join_def)





lemma float_gt_Num: "float_gt (Num x) (Num y) \<longleftrightarrow> y < x"
  by (simp add: float_gt_def)

lemma Max_insert_max:
  "finite S \<Longrightarrow> Max (insert (max x b) S) = Max (insert b (insert x S))"
  by (cases "S = {}") (simp_all add: max.assoc max.commute max.left_commute)

lemma run_epochs_best:
  assumes "run_epochs a env loader es st0 = Inr st" "best_acc st0 = Num b0"
  shows "\<exists>xs. length xs = length es \<and>
    logged_accuracies (writer st) = logged_accuracies (writer st0) @ map Num xs \<and>
    best_acc st = Num (Max (insert b0 (set xs)))"
  using assms
proof (induction es arbitrary: st0 b0)
  case Nil
  then show ?case by simp
next
  case (Cons e es)
  from Cons.prems(1) obtain st1 where
    r1: "run_epoch a env loader e st0 = Inr st1" and
    r2: "run_epochs a env loader es st1 = Inr st"
    by (auto simp: and_then_eq_Inr)
  from run_epoch_summary [OF r1] obtain x cm where
    wr: "writer st1 = writer st0 @ [Scalar ''Val/Accuracy'' (Num x) e,
                   Figure ''confusion_matrix'' cm [0..<categories env] e]"
    and b: "best_acc st1 = (if float_gt (Num x) (best_acc st0) then Num x else best_acc st0)"
    by blast
  from b Cons.prems(2) have b1: "best_acc st1 = Num (max x b0)"
    by (auto simp: float_gt_Num max_def)
  from Cons.IH [OF r2 b1] obtain xs where
    xs: "length xs = length es"
      "logged_accuracies (writer st) = logged_accuracies (writer st1) @ map Num xs"
      "best_acc st = Num (Max (insert (max x b0) (set xs)))"
    by blast
  have "logged_accuracies (writer st) = logged_accuracies (writer st0) @ map Num (x # xs)"
    using xs(2) by (simp add: wr logged_accuracies_append)
  moreover have "best_acc st = Num (Max (insert b0 (set (x # xs))))"
    using xs(3) by (simp add: Max_insert_max)
  moreover have "length (x # xs) = length (e # es)" using xs(1) by simp
  ultimately show ?case by blast
qed

text \<open>
  C2. When the epochs \<open>es\<close> of a run have completed and epoch \<open>e\<close> completes next, the
  running best before \<open>e\<close> is the maximum of the best the run started with and the
  accuracies of the earlier epochs; the file last.pt holds the record of epoch \<open>e\<close>; the
  file best.pt holds that record when the accuracy of \<open>e\<close> is strictly greater than the
  running best and is left as it was otherwise; and the running best becomes the greater
  of the two.
\<close>

theorem best_and_last_checkpoints:
  assumes "run_epochs a env loader es st0 = Inr st"
    and "run_epoch a env loader e st = Inr st'"
    and "best_acc st0 = Num b0"
  shows "\<exists>xs x ck.
    length xs = length es \<and>
    logged_accuracies (writer st) = logged_accuracies (writer st0) @ map Num xs \<and>
    best_acc st = Num (Max (insert b0 (set xs))) \<and>
    logged_accuracies (writer st') = logged_accuracies (writer st) @ [Num x] \<and>
    ck_epoch ck = e \<and>
    files st' (path_join (trained_path a) ''last.pt'') = Some (CheckpointFile ck) \<and>
    files st' (path_join (trained_path a) ''best.pt'') =
      (if Max (insert b0 (set xs)) < x then Some (CheckpointFile ck)
       else files st (path_join (trained_path a) ''best.pt'')) \<and>
    best_acc st' = Num (if Max (insert b0 (set xs)) < x then x else Max (insert b0 (set xs)))"
proof -
  from run_epochs_best [OF assms(1,3)] obtain xs where
    xs: "length xs = length es"
      "logged_accuracies (writer st) = logged_accuracies (writer st0) @ map Num xs"
      "best_acc st = Num (Max (insert b0 (set xs)))"
    by blast
  from run_epoch_summary [OF assms(2)] obtain w mo x cm ck where
    wr: "writer st' = writer st @ [Scalar ''Val/Accuracy'' (Num x) e,
                   Figure ''confusion_matrix'' cm [0..<categories env] e]"
    and ck: "ck = \<lparr> ck_model = (model st) \<lparr> weights := w \<rparr>,
           ck_optimizer = (optimizer st) \<lparr> moments := mo \<rparr>,
           ck_epoch = e, ck_best_acc = best_acc st, ck_batch_size = batch_size a \<rparr>"
    and fs: "files st' =
      (if float_gt (Num x) (best_acc st)
       then ((files st)(path_join (trained_path a) ''last.pt'' \<mapsto> CheckpointFile ck))
              (path_join (trained_path a) ''best.pt'' \<mapsto> CheckpointFile ck)
       else (files st)(path_join (trained_path a) ''last.pt'' \<mapsto> CheckpointFile ck))"
    and b: "best_acc st' = (if float_gt (Num x) (best_acc st) then Num x else best_acc st)"
    by blast
  have lg: "logged_accuracies (writer st') = logged_accuracies (writer st) @ [Num x]"
    by (simp add: wr logged_accuracies_append)
  have last: "files st' (path_join (trained_path a) ''last.pt'') = Some (CheckpointFile ck)"
    using fs last_best_distinct [of "trained_path a"] by auto
  have best: "files st' (path_join (trained_path a) ''best.pt'') =
      (if Max (insert b0 (set xs)) < x then Some (CheckpointFile ck)
       else files st (path_join (trained_path a) ''best.pt''))"
    using fs last_best_distinct [of "trained_path a"] by (auto simp: xs(3) float_gt_Num)
  have b': "best_acc st' = Num (if Max (insert b0 (set xs)) < x then x else Max (insert b0 (set xs)))"
    using b by (simp add: xs(3) float_gt_Num)
  have "ck_epoch ck = e" by (simp add: ck)
  with xs lg last best b' show ?thesis by blast
qed

text \<open>
  C10. The record that an epoch writes to last.pt, and to best.pt when it writes it,
  carries as best accuracy the running best from before the epoch's comparison: when the
  epoch sets a new best, the record in best.pt holds the superseded best, which is
  strictly below the accuracy that caused the write.
\<close>

theorem checkpoint_best_acc_is_stale:
  assumes "run_epoch a env loader e st = Inr st'"
  shows "\<exists>acc ck.
    logged_accuracies (writer st') = logged_accuracies (writer st) @ [acc] \<and>
    files st' (path_join (trained_path a) ''last.pt'') = Some (CheckpointFile ck) \<and>
    ck_epoch ck = e \<and>
    ck_best_acc ck = best_acc st \<and>
    (float_gt acc (best_acc st) \<longrightarrow>
       files st' (path_join (trained_path a) ''best.pt'') = Some (CheckpointFile ck) \<and>
       best_acc st' = acc \<and> float_gt (best_acc st') (ck_best_acc ck) \<and> ck_best_acc ck \<noteq> acc) \<and>
    (\<not> float_gt acc (best_acc st) \<longrightarrow>
       files st' (path_join (trained_path a) ''best.pt'') =
         files st (path_join (trained_path a) ''best.pt'') \<and>
       best_acc st' = best_acc st)"
proof -
  from run_epoch_summary [OF assms] obtain w mo x cm ck where
    wr: "writer st' = writer st @ [Scalar ''Val/Accuracy'' (Num x) e,
                   Figure ''confusion_matrix'' cm [0..<categories env] e]"
    and ck0: "ck = \<lparr> ck_model = (model st) \<lparr> weights := w \<rparr>,
           ck_optimizer = (optimizer st) \<lparr> moments := mo \<rparr>,
           ck_epoch = e, ck_best_acc = best_acc st, ck_batch_size = batch_size a \<rparr>"
    and fs: "files st' =
      (if float_gt (Num x) (best_acc st)
       then ((files st)(path_join (trained_path a) ''last.pt'' \<mapsto> CheckpointFile ck))
              (path_join (trained_path a) ''best.pt'' \<mapsto> CheckpointFile ck)
       else (files st)(path_join (trained_path a) ''last.pt'' \<mapsto> CheckpointFile ck))"
    and b: "best_acc st' = (if float_gt (Num x) (best_acc st) then Num x else best_acc st)"
    by blast
  have ck: "ck_epoch ck = e" "ck_best_acc ck = best_acc st"
    by (simp_all add: ck0)
  have lg: "logged_accuracies (writer st') = logged_accuracies (writer st) @ [Num x]"
    by (simp add: wr logged_accuracies_append)
  have last: "files st' (path_join (trained_path a) ''last.pt'') = Some (CheckpointFile ck)"
    using fs last_best_distinct [of "trained_path a"] by auto
  have ne: "best_acc st \<noteq> Num x" if "float_gt (Num x) (best_acc st)"
    using that by (auto simp: float_gt_Num)
  have new: "files st' (path_join (trained_path a) ''best.pt'') = Some (CheckpointFile ck) \<and>
       best_acc st' = Num x \<and> float_gt (best_acc st') (ck_best_acc ck) \<and> ck_best_acc ck \<noteq> Num x"
    if "float_gt (Num x) (best_acc st)"
    using that fs b ck(2) ne by simp
  have old: "files st' (path_join (trained_path a) ''best.pt'') =
         files st (path_join (trained_path a) ''best.pt'') \<and> best_acc st' = best_acc st"
    if "\<not> float_gt (Num x) (best_acc st)"
    using that fs b last_best_distinct [of "trained_path a"] by auto
  from lg last ck new old show ?thesis by blast
qed

lemma demo_epoch_logged:
  assumes "run_epoch a demo_env [demo_valid_set] e st = Inr st'"
  shows "logged_accuracies (writer st') = logged_accuracies (writer st) @ [Num (3 / 4)]"
proof -
  from run_epoch_summary [OF assms] obtain w gts preds x cm where
    v: "validation_loop (net demo_env w) [demo_valid_set] ([], []) = Inr (gts, preds)"
    and x: "x = of_nat (correct_count gts preds) / of_nat (length gts)"
    and len: "length gts = length preds"
    and wr: "writer st' = writer st @ [Scalar ''Val/Accuracy'' (Num x) e,
                   Figure ''confusion_matrix'' cm [0..<categories demo_env] e]"
    by blast
  from trans [OF v [symmetric] demo_validation]
  have g: "gts = [0, 0, 1, 1]" "preds = [0, 1, 1, 1]"
    by simp_all
  have "correct_count gts preds = length (filter (\<lambda>(t, p). t = p) (zip gts preds))"
    by (rule matches_card [symmetric]) (rule len)
  also have "\<dots> = 3" by (simp add: g)
  finally have "x = 3 / 4" using x by (simp add: g)
  then show ?thesis by (simp add: wr logged_accuracies_append)
qed

theorem best_and_last_checkpoints_witness:
  "\<exists>st1 st2.
     run_epochs get_args_defaults demo_env [demo_valid_set] [0] demo_state = Inr st1 \<and>
     run_epoch get_args_defaults demo_env [demo_valid_set] 1 st1 = Inr st2 \<and>
     best_acc demo_state = Num 0 \<and>
     best_acc st1 = Num (3 / 4) \<and>
     best_acc st2 = Num (3 / 4) \<and>
     files st2 (path_join (trained_path get_args_defaults) ''best.pt'') =
       files st1 (path_join (trained_path get_args_defaults) ''best.pt'') \<and>
     (\<exists>ck. files st2 (path_join (trained_path get_args_defaults) ''last.pt'') =
        Some (CheckpointFile ck) \<and> ck_epoch ck = 1)"
proof -
  from run_epoch_ok [OF demo_env_simps(1) demo_validation _ demo_state_ok] obtain st1 where
    r1: "run_epoch get_args_defaults demo_env [demo_valid_set] 0 demo_state = Inr st1"
    and ok1: "trained_ok get_args_defaults (files st1)"
    by blast
  from run_epoch_ok [OF demo_env_simps(1) demo_validation _ ok1] obtain st2 where
    r2: "run_epoch get_args_defaults demo_env [demo_valid_set] 1 st1 = Inr st2"
    by blast
  have rs: "run_epochs get_args_defaults demo_env [demo_valid_set] [0] demo_state = Inr st1"
    using r1 by (simp add: and_then_Inr)
  have b0: "best_acc demo_state = Num 0" by (simp add: demo_state_def)
  from best_and_last_checkpoints [OF rs r2 b0] obtain xs x ck where
    t: "length xs = length [0::int]"
      "logged_accuracies (writer st1) = logged_accuracies (writer demo_state) @ map Num xs"
      "best_acc st1 = Num (Max (insert 0 (set xs)))"
      "logged_accuracies (writer st2) = logged_accuracies (writer st1) @ [Num x]"
      "ck_epoch ck = 1"
      "files st2 (path_join (trained_path get_args_defaults) ''last.pt'') = Some (CheckpointFile ck)"
      "files st2 (path_join (trained_path get_args_defaults) ''best.pt'') =
        (if Max (insert 0 (set xs)) < x then Some (CheckpointFile ck)
         else files st1 (path_join (trained_path get_args_defaults) ''best.pt''))"
      "best_acc st2 = Num (if Max (insert 0 (set xs)) < x then x else Max (insert 0 (set xs)))"
    by blast
  from t(2) demo_epoch_logged [OF r1] have xs: "xs = [3 / 4]"
    by (cases xs) (auto simp: demo_state_def)
  from t(4) demo_epoch_logged [OF r2] have x: "x = 3 / 4" by simp
  from t(3,7,8) have
    "best_acc st1 = Num (3 / 4)" "best_acc st2 = Num (3 / 4)"
    "files st2 (path_join (trained_path get_args_defaults) ''best.pt'') =
       files st1 (path_join (trained_path get_args_defaults) ''best.pt'')"
    by (simp_all add: xs x)
  with rs r2 b0 t(5,6) show ?thesis by blast
qed

theorem checkpoint_best_acc_is_stale_witness:
  "\<exists>st1 st2 ck1 ck2.
     run_epoch get_args_defaults demo_env [demo_valid_set] 0 demo_state = Inr st1 \<and>
     files st1 (path_join (trained_path get_args_defaults) ''best.pt'') = Some (CheckpointFile ck1) \<and>
     ck_best_acc ck1 = Num 0 \<and>
     best_acc st1 = Num (3 / 4) \<and>
     run_epoch get_args_defaults demo_env [demo_valid_set] 1 st1 = Inr st2 \<and>
     files st2 (path_join (trained_path get_args_defaults) ''last.pt'') = Some (CheckpointFile ck2) \<and>
     ck_best_acc ck2 = Num (3 / 4) \<and>
     files st2 (path_join (trained_path get_args_defaults) ''best.pt'') = Some (CheckpointFile ck1)"
proof -
  from run_epoch_ok [OF demo_env_simps(1) demo_validation _ demo_state_ok] obtain st1 where
    r: "run_epoch get_args_defaults demo_env [demo_valid_set] 0 demo_state = Inr st1"
    and ok1: "trained_ok get_args_defaults (files st1)"
    by blast
  from checkpoint_best_acc_is_stale [OF r] obtain acc ck1 where
    t: "logged_accuracies (writer st1) = logged_accuracies (writer demo_state) @ [acc]"
      "ck_best_acc ck1 = best_acc demo_state"
      "float_gt acc (best_acc demo_state) \<longrightarrow>
         files st1 (path_join (trained_path get_args_defaults) ''best.pt'') = Some (CheckpointFile ck1) \<and>
         best_acc st1 = acc \<and> float_gt (best_acc st1) (ck_best_acc ck1) \<and> ck_best_acc ck1 \<noteq> acc"
    by blast
  from t(1) demo_epoch_logged [OF r] have acc: "acc = Num (3 / 4)" by simp
  have "float_gt acc (best_acc demo_state)"
    by (simp add: acc demo_state_def float_gt_def)
  with t(2,3) have a:
    "files st1 (path_join (trained_path get_args_defaults) ''best.pt'') = Some (CheckpointFile ck1)"
    "ck_best_acc ck1 = Num 0" "best_acc st1 = Num (3 / 4)"
    by (simp_all add: acc demo_state_def)
  from run_epoch_ok [OF demo_env_simps(1) demo_validation _ ok1] obtain st2 where
    r2: "run_epoch get_args_defaults demo_env [demo_valid_set] 1 st1 = Inr st2"
    by blast
  from checkpoint_best_acc_is_stale [OF r2] obtain acc2 ck2 where
    u: "logged_accuracies (writer st2) = logged_accuracies (writer st1) @ [acc2]"
      "files st2 (path_join (trained_path get_args_defaults) ''last.pt'') = Some (CheckpointFile ck2)"
      "ck_best_acc ck2 = best_acc st1"
      "\<not> float_gt acc2 (best_acc st1) \<longrightarrow>
         files st2 (path_join (trained_path get_args_defaults) ''best.pt'') =
           files st1 (path_join (trained_path get_args_defaults) ''best.pt'') \<and>
         best_acc st2 = best_acc st1"
    by blast
  from u(1) demo_epoch_logged [OF r2] have acc2: "acc2 = Num (3 / 4)" by simp
  have "\<not> float_gt acc2 (best_acc st1)"
    by (simp add: acc2 a(3) float_gt_def)
  with u(3,4) a have b:
    "ck_best_acc ck2 = Num (3 / 4)"
    "files st2 (path_join (trained_path get_args_defaults) ''best.pt'') = Some (CheckpointFile ck1)"
    by simp_all
  from r a r2 u(2) b show ?thesis by blast
qed

lemma MultiStepLR_start: "MultiStepLR opt = (0, opt)"
  by (simp add: MultiStepLR_def MultiStepLR_step_def milestones_def)

lemma start_run_Inr:
  assumes "start_run a env fs = Inr (start_epoch, loader, st)"
  shows "DataLoader (batch_size a) (valid_set env) = Inr loader"
    and "\<exists>fs1.
      resume a fs \<lparr> num_classes = categories env, weights = init_weights env \<rparr>
        \<lparr> group_lr = lr a, moments = init_moments env \<rparr> =
        Inr (model st, optimizer st, start_epoch, best_acc st) \<and>
      prepare_tensorboard (tensorboard_path a) fs = Inr fs1 \<and>
      prepare_trained (trained_path a) fs1 = Inr (files st)"
    and "last_epoch st = 0" and "writer st = []"
  using assms unfolding start_run_def Let_def MultiStepLR_start
  by (auto simp: and_then_eq_Inr)


lemma prepare_tensorboard_Inr:
  assumes "prepare_tensorboard p fs = Inr fs1"
  shows "fs1 p = Some Dir"
    and "isdir fs p \<Longrightarrow> strict_prefix p q \<Longrightarrow> fs1 q = None"
    and "\<not> prefix p q \<Longrightarrow> fs1 q = fs q"
    and "\<not> isdir fs p \<Longrightarrow> q \<noteq> p \<Longrightarrow> fs1 q = fs q"
  using assms unfolding prepare_tensorboard_def
  by (auto simp: and_then_eq_Inr rmtree_def mkdir_def strict_prefix_def
      split: if_splits option.splits)

lemma prepare_trained_Inr:
  assumes "prepare_trained p fs1 = Inr fs2"
  shows "q \<noteq> p \<Longrightarrow> fs2 q = fs1 q" and "fs1 p \<noteq> None \<Longrightarrow> fs2 = fs1"
    and "isdir fs2 p"
  using assms unfolding prepare_trained_def
  by (auto simp: mkdir_def isdir_def split: if_splits option.splits)

lemma start_run_ok:
  assumes "0 < batch_size a"
    and "resume a fs \<lparr> num_classes = categories env, weights = init_weights env \<rparr>
        \<lparr> group_lr = lr a, moments = init_moments env \<rparr> = Inr (m, opt, s, b)"
    and "fs (tensorboard_path a) = Some Dir \<or> fs (tensorboard_path a) = None"
    and "length (tensorboard_path a) = 1"
    and "trained_path a \<noteq> []"
    and "\<not> prefix (tensorboard_path a) (trained_path a)"
    and "fs (trained_path a) = Some Dir \<or> (fs (trained_path a) = None \<and> length (trained_path a) = 1)"
  shows "\<exists>st. start_run a env fs = Inr (s, chunks (nat (batch_size a)) (valid_set env), st)"
proof -
  have tb: "tensorboard_path a \<noteq> []" "butlast (tensorboard_path a) = []"
    using assms(4) by (cases "tensorboard_path a"; simp)+
  let ?fs0 = "if isdir fs (tensorboard_path a)
      then (\<lambda>q. if prefix (tensorboard_path a) q then None else fs q) else fs"
  have r: "(if isdir fs (tensorboard_path a) then rmtree (tensorboard_path a) fs else Inr fs) = Inr ?fs0"
    using tb by (simp add: rmtree_def)
  have n: "?fs0 (tensorboard_path a) = None"
    using assms(3) tb by (auto simp: isdir_def)
  have p1: "prepare_tensorboard (tensorboard_path a) fs = Inr (?fs0(tensorboard_path a \<mapsto> Dir))"
    unfolding prepare_tensorboard_def r and_then_Inr
    using n tb by (simp add: mkdir_def parent_error_def isdir_def)
  let ?fs1 = "?fs0(tensorboard_path a \<mapsto> Dir)"
  have t: "?fs1 (trained_path a) = fs (trained_path a)"
    using assms(6) by auto
  have "\<exists>fs2. prepare_trained (trained_path a) ?fs1 = Inr fs2"
  proof (cases "fs (trained_path a) = Some Dir")
    case True
    with t have "isdir ?fs1 (trained_path a)" by (simp add: isdir_def)
    then show ?thesis by (simp add: prepare_trained_def)
  next
    case False
    with assms(7) have f: "fs (trained_path a) = None" "length (trained_path a) = 1" by auto
    then have b: "butlast (trained_path a) = []" by (cases "trained_path a") simp_all
    from f t have "?fs1 (trained_path a) = None" by simp
    then show ?thesis
      using assms(5) b
      by (simp add: prepare_trained_def mkdir_def parent_error_def isdir_def)
  qed
  then obtain fs2 where p2: "prepare_trained (trained_path a) ?fs1 = Inr fs2" by blast
  show ?thesis
    unfolding start_run_def Let_def MultiStepLR_start
    using assms(1,2) p1 p2
    by (simp add: DataLoader_def and_then_Inr)
qed

lemma prepare_tensorboard_ok:
  assumes "d \<noteq> []" "fs0 d = Some Dir" "isdir fs0 (butlast d)"
  shows "\<exists>fs1. prepare_tensorboard d fs0 = Inr fs1 \<and> fs1 d = Some Dir \<and>
    (\<forall>q. strict_prefix d q \<longrightarrow> fs1 q = None)"
proof -
  have n: "\<not> prefix d (butlast d)"
  proof
    assume "prefix d (butlast d)"
    then have "length d \<le> length (butlast d)" by (rule prefix_length_le)
    moreover have "length (butlast d) = length d - 1" by simp
    moreover have "0 < length d" using assms(1) by simp
    ultimately show False by linarith
  qed
  have "isdir (\<lambda>q. if prefix d q then None else fs0 q) (butlast d)"
    using assms(3) n by (simp add: isdir_def)
  then have "prepare_tensorboard d fs0 =
      Inr ((\<lambda>q. if prefix d q then None else fs0 q)(d \<mapsto> Dir))"
    using assms(1,2)
    by (simp add: prepare_tensorboard_def isdir_def rmtree_def and_then_Inr mkdir_def
        parent_error_def)
  then show ?thesis
    by (auto simp: strict_prefix_def)
qed

text \<open>
  C9. In every run that reaches its first epoch, the tensorboard directory is a directory
  again; if it existed before (or the file system is a tree, where a missing directory has
  nothing below it), nothing that was below it is left, so the logs of an earlier run are
  gone (the only entry that can be below it is the directory for the trained models, when
  the run has just created it there); entries outside it are untouched; and the log of the
  run starts empty. Removing and creating the directory does not fail when it exists below
  an existing directory.
\<close>

theorem tensorboard_dir_recreated:
  assumes "start_run a env fs = Inr (start_epoch, loader, st)"
  shows "files st (tensorboard_path a) = Some Dir \<and>
    (isdir fs (tensorboard_path a) \<or> well_formed fs \<longrightarrow>
       (\<forall>q. strict_prefix (tensorboard_path a) q \<and> q \<noteq> trained_path a \<longrightarrow> files st q = None)) \<and>
    (\<forall>q. \<not> prefix (tensorboard_path a) q \<and> q \<noteq> trained_path a \<longrightarrow> files st q = fs q) \<and>
    writer st = [] \<and>
    (d \<noteq> [] \<and> fs0 d = Some Dir \<and> isdir fs0 (butlast d) \<longrightarrow>
       (\<exists>fs1. prepare_tensorboard d fs0 = Inr fs1 \<and> fs1 d = Some Dir \<and>
          (\<forall>q. strict_prefix d q \<longrightarrow> fs1 q = None)))"
proof -
  from start_run_Inr(2) [OF assms] obtain fs1 where
    p1: "prepare_tensorboard (tensorboard_path a) fs = Inr fs1" and
    p2: "prepare_trained (trained_path a) fs1 = Inr (files st)"
    by blast
  note t = prepare_tensorboard_Inr [OF p1]
  note u = prepare_trained_Inr [OF p2]
  have a: "files st (tensorboard_path a) = Some Dir"
  proof (cases "tensorboard_path a = trained_path a")
    case True
    with t(1) u(2) show ?thesis by simp
  next
    case False
    with t(1) u(1) show ?thesis by simp
  qed
  have b: "files st q = None"
    if h: "isdir fs (tensorboard_path a) \<or> well_formed fs"
      and q: "strict_prefix (tensorboard_path a) q" "q \<noteq> trained_path a" for q
  proof (cases "isdir fs (tensorboard_path a)")
    case True
    with t(2) q u(1) show ?thesis by simp
  next
    case False
    with h have wf: "well_formed fs" by simp
    have "fs q = None"
    proof (rule ccontr)
      assume "fs q \<noteq> None"
      with wf q(1) have "isdir fs (tensorboard_path a)"
        unfolding well_formed_def by blast
      with False show False by simp
    qed
    moreover have "q \<noteq> tensorboard_path a" using q(1) by (auto simp: strict_prefix_def)
    ultimately show ?thesis using t(4) [OF False] u(1) q(2) by simp
  qed
  have c: "files st q = fs q" if "\<not> prefix (tensorboard_path a) q" "q \<noteq> trained_path a" for q
    using that t(3) u(1) by simp
  have e: "\<exists>fs1. prepare_tensorboard d fs0 = Inr fs1 \<and> fs1 d = Some Dir \<and>
          (\<forall>q. strict_prefix d q \<longrightarrow> fs1 q = None)"
    if "d \<noteq> [] \<and> fs0 d = Some Dir \<and> isdir fs0 (butlast d)"
    by (rule prepare_tensorboard_ok) (use that in simp_all)
  from a b c e start_run_Inr(4) [OF assms] show ?thesis by blast
qed

theorem tensorboard_dir_recreated_witness:
  "(\<exists>st. start_run get_args_defaults demo_env demo_old_files = Inr (0, [demo_valid_set], st) \<and>
     isdir demo_old_files (tensorboard_path get_args_defaults) \<and>
     demo_old_files [''tensorboard'', ''events.old''] = Some OtherFile \<and>
     files st [''tensorboard'', ''events.old''] = None \<and>
     files st [''tensorboard''] = Some Dir) \<and>
   (\<exists>fs1. prepare_tensorboard [''tensorboard''] demo_old_files = Inr fs1 \<and>
     fs1 [''tensorboard'', ''events.old''] = None) \<and>
   start_run get_args_defaults demo_env Map.empty = Inr (0, [demo_valid_set], demo_state) \<and>
   well_formed (Map.empty :: (unit, unit) filesystem) \<and>
   files demo_state [''tensorboard'', ''events.old''] = None"
proof -
  have r: "resume get_args_defaults demo_old_files
      \<lparr> num_classes = categories demo_env, weights = init_weights demo_env \<rparr>
      \<lparr> group_lr = lr get_args_defaults, moments = init_moments demo_env \<rparr> =
      Inr (\<lparr> num_classes = categories demo_env, weights = init_weights demo_env \<rparr>,
           \<lparr> group_lr = lr get_args_defaults, moments = init_moments demo_env \<rparr>, 0, Num 0)"
    by (simp add: resume_def get_args_defaults_def)
  have "\<exists>st. start_run get_args_defaults demo_env demo_old_files =
      Inr (0, chunks (nat (batch_size get_args_defaults)) (valid_set demo_env), st)"
    by (rule start_run_ok [OF _ r]) (simp_all add: get_args_defaults_def demo_old_files_def)
  moreover have "chunks (nat (batch_size get_args_defaults)) (valid_set demo_env) = [demo_valid_set]"
    using demo_loader by (simp add: DataLoader_def get_args_defaults_def)
  ultimately obtain st where
    s: "start_run get_args_defaults demo_env demo_old_files = Inr (0, [demo_valid_set], st)"
    by auto
  have d: "isdir demo_old_files (tensorboard_path get_args_defaults)"
    by (simp add: isdir_def demo_old_files_def get_args_defaults_def)
  note t = tensorboard_dir_recreated [OF s, where d = "[''tensorboard'']" and ?fs0.0 = demo_old_files]
  from t have "files st (tensorboard_path get_args_defaults) = Some Dir" by blast
  then have e: "files st [''tensorboard''] = Some Dir"
    by (simp add: get_args_defaults_def)
  from t d have "\<forall>q. strict_prefix (tensorboard_path get_args_defaults) q \<and>
      q \<noteq> trained_path get_args_defaults \<longrightarrow> files st q = None" by blast
  then have f: "files st [''tensorboard'', ''events.old''] = None"
    by (simp add: get_args_defaults_def strict_prefix_def)
  have g: "demo_old_files [''tensorboard'', ''events.old''] = Some OtherFile"
    by (simp add: demo_old_files_def)
  have "[''tensorboard''] \<noteq> [] \<and> demo_old_files [''tensorboard''] = Some Dir \<and>
      isdir demo_old_files (butlast [''tensorboard''])"
    by (simp add: demo_old_files_def isdir_def)
  with t obtain fs1 where
    h: "prepare_tensorboard [''tensorboard''] demo_old_files = Inr fs1"
      "\<forall>q. strict_prefix [''tensorboard''] q \<longrightarrow> fs1 q = None"
    by blast
  from h(2) have i: "fs1 [''tensorboard'', ''events.old''] = None"
    by (simp add: strict_prefix_def)
  have wf: "well_formed (Map.empty :: (unit, unit) filesystem)"
    by (simp add: well_formed_def)
  note u = tensorboard_dir_recreated [OF demo_start, where d = "[]" and ?fs0.0 = Map.empty]
  from u wf have "\<forall>q. strict_prefix (tensorboard_path get_args_defaults) q \<and>
      q \<noteq> trained_path get_args_defaults \<longrightarrow> files demo_state q = None" by blast
  then have j: "files demo_state [''tensorboard'', ''events.old''] = None"
    by (simp add: get_args_defaults_def strict_prefix_def)
  from s d e f g h(1) i demo_start wf j show ?thesis by blast
qed













end
